theory Spec2Isabelle
  imports Complex_Main
begin

section \<open>Numbers, vectors and boxes\<close>

text \<open>
  The simulation of \<^verbatim>\<open>BasicWorld\<close> (src/unnamed/part_002) computes on JavaScript
  numbers.  They are modelled as real numbers: every claim below is a statement of exact
  arithmetic, and rounding, infinities and NaN are outside the model.

  \<^verbatim>\<open>THREE.Vector3\<close>, \<^verbatim>\<open>THREE.Quaternion\<close> and \<^verbatim>\<open>THREE.Box3\<close> come from the three.js
  library, which the program only declares (part_002, lines 7-188).  Their methods are
  written out here as the library computes them.
\<close>

record vector3 =
  vx :: real
  vy :: real
  vz :: real

definition Vector3 :: "real \<Rightarrow> real \<Rightarrow> real \<Rightarrow> vector3" where
  "Vector3 a b c = \<lparr>vx = a, vy = b, vz = c\<rparr>"

definition v_add :: "vector3 \<Rightarrow> vector3 \<Rightarrow> vector3" where
  "v_add u v = \<lparr>vx = vx u + vx v, vy = vy u + vy v, vz = vz u + vz v\<rparr>"

definition v_sub :: "vector3 \<Rightarrow> vector3 \<Rightarrow> vector3" where
  "v_sub u v = \<lparr>vx = vx u - vx v, vy = vy u - vy v, vz = vz u - vz v\<rparr>"

definition multiplyScalar :: "vector3 \<Rightarrow> real \<Rightarrow> vector3" where
  "multiplyScalar v s = \<lparr>vx = vx v * s, vy = vy v * s, vz = vz v * s\<rparr>"

definition v_length :: "vector3 \<Rightarrow> real" where
  "v_length v = sqrt (vx v * vx v + vy v * vy v + vz v * vz v)"

text \<open>\<^verbatim>\<open>normalize()\<close> is \<^verbatim>\<open>divideScalar(length() || 1)\<close>, and \<^verbatim>\<open>divideScalar(s)\<close> multiplies
  by \<^verbatim>\<open>1 / s\<close>: the zero vector stays as it is.\<close>

definition normalize :: "vector3 \<Rightarrow> vector3" where
  "normalize v = multiplyScalar v (1 / (if v_length v = 0 then 1 else v_length v))"

definition distanceTo :: "vector3 \<Rightarrow> vector3 \<Rightarrow> real" where
  "distanceTo u v =
     sqrt ((vx u - vx v) * (vx u - vx v) + (vy u - vy v) * (vy u - vy v)
           + (vz u - vz v) * (vz u - vz v))"

record quaternion =
  qx :: real
  qy :: real
  qz :: real
  qw :: real

text \<open>An object's \<^verbatim>\<open>quaternion\<close> follows its Euler \<^verbatim>\<open>rotation\<close>.  The program only ever
  writes \<^verbatim>\<open>rotation.y\<close> of the car, so the car's quaternion is the one three.js derives
  from the Euler angles \<open>(0, \<theta>, 0)\<close>.\<close>

definition quaternionOfYaw :: "real \<Rightarrow> quaternion" where
  "quaternionOfYaw \<theta> = \<lparr>qx = 0, qy = sin (\<theta> / 2), qz = 0, qw = cos (\<theta> / 2)\<rparr>"

definition applyQuaternion :: "vector3 \<Rightarrow> quaternion \<Rightarrow> vector3" where
  "applyQuaternion v q =
     (let ix = qw q * vx v + qy q * vz v - qz q * vy v;
          iy = qw q * vy v + qz q * vx v - qx q * vz v;
          iz = qw q * vz v + qx q * vy v - qy q * vx v;
          iw = - qx q * vx v - qy q * vy v - qz q * vz v
      in \<lparr>vx = ix * qw q + iw * - qx q + iy * - qz q - iz * - qy q,
          vy = iy * qw q + iw * - qy q + iz * - qx q - ix * - qz q,
          vz = iz * qw q + iw * - qz q + ix * - qy q - iy * - qx q\<rparr>)"

record box3 =
  box_min :: vector3
  box_max :: vector3

text \<open>\<^verbatim>\<open>Box3.containsPoint\<close> of three.js tests all three axes, bounds included.\<close>

definition containsPoint :: "box3 \<Rightarrow> vector3 \<Rightarrow> bool" where
  "containsPoint box point =
     (\<not> (vx point < vx (box_min box) \<or> vx point > vx (box_max box)
         \<or> vy point < vy (box_min box) \<or> vy point > vy (box_max box)
         \<or> vz point < vz (box_min box) \<or> vz point > vz (box_max box)))"

text \<open>The horizontal footprint of a box: its extent in x and z only.\<close>

definition inFootprint :: "box3 \<Rightarrow> vector3 \<Rightarrow> bool" where
  "inFootprint box point =
     (vx (box_min box) \<le> vx point \<and> vx point \<le> vx (box_max box)
      \<and> vz (box_min box) \<le> vz point \<and> vz point \<le> vz (box_max box))"

text \<open>\<^verbatim>\<open>collides\<close> (lines 289-294): the first box that contains the point ends the loop.\<close>

fun collides :: "box3 list \<Rightarrow> vector3 \<Rightarrow> bool" where
  "collides [] pos = False"
| "collides (box # boxes) pos = (if containsPoint box pos then True else collides boxes pos)"

text \<open>The collider \<^verbatim>\<open>createObjects\<close> stores for a building (lines 659-663): the footprint
  of the building, from the ground to its height.\<close>

definition buildingCollider :: "real \<Rightarrow> real \<Rightarrow> real \<Rightarrow> real \<Rightarrow> real \<Rightarrow> box3" where
  "buildingCollider buildingX buildingZ width height depth =
     \<lparr>box_min = Vector3 (buildingX - width / 2) 0 (buildingZ - depth / 2),
      box_max = Vector3 (buildingX + width / 2) height (buildingZ + depth / 2)\<rparr>"

text \<open>\<^verbatim>\<open>v.x += offsetX; v.z += offsetZ\<close>, as \<^verbatim>\<open>wrapWorld\<close> does it to every vector it moves.\<close>

definition translateVector :: "real \<Rightarrow> real \<Rightarrow> vector3 \<Rightarrow> vector3" where
  "translateVector offsetX offsetZ v = v\<lparr>vx := vx v + offsetX, vz := vz v + offsetZ\<rparr>"

text \<open>The collider loop of \<^verbatim>\<open>wrapWorld\<close> (lines 1071-1074).\<close>

definition translateBox :: "real \<Rightarrow> real \<Rightarrow> box3 \<Rightarrow> box3" where
  "translateBox offsetX offsetZ b =
     \<lparr>box_min = translateVector offsetX offsetZ (box_min b),
      box_max = translateVector offsetX offsetZ (box_max b)\<rparr>"

definition translateColliders :: "real \<Rightarrow> real \<Rightarrow> box3 list \<Rightarrow> box3 list" where
  "translateColliders offsetX offsetZ boxes = map (translateBox offsetX offsetZ) boxes"

section \<open>The world of \<^verbatim>\<open>BasicWorld\<close>\<close>

text \<open>
  Scene objects are shared: the character is a field of the world and a child of the
  scene, a coin is an element of \<^verbatim>\<open>coins\<close> and a child of the scene.  The model keeps
  the objects in a store and the fields hold references, so that \<^verbatim>\<open>obj === this.character\<close>
  is the equality of two references.  An object carries what the simulation reads and
  writes: \<^verbatim>\<open>position\<close>, the yaw \<^verbatim>\<open>rotation.y\<close>, \<^verbatim>\<open>visible\<close>, its \<^verbatim>\<open>children\<close>, whether it
  is a \<^verbatim>\<open>THREE.Group\<close> or a \<^verbatim>\<open>THREE.PointLight\<close>, and the \<^verbatim>\<open>intensity\<close> and \<^verbatim>\<open>color\<close> of a
  light.  Sound, the wheels, the camera orbit and the facing angle of the character are
  left out: no modelled function reads what they write.
\<close>

record color =
  cr :: real
  cg :: real
  cb :: real

text \<open>\<^verbatim>\<open>new THREE.Color(hex)\<close>: one byte per channel, scaled to the unit interval.\<close>

definition colorOfHex :: "nat \<Rightarrow> color" where
  "colorOfHex h =
     \<lparr>cr = real ((h div 65536) mod 256) / 255,
      cg = real ((h div 256) mod 256) / 255,
      cb = real (h mod 256) / 255\<rparr>"

type_synonym ref = nat

record object3d =
  position :: vector3
  rotationY :: real
  visible :: bool
  isGroup :: bool
  isPointLight :: bool
  children :: "ref list"
  intensity :: real
  color :: color

record world =
  heap :: "ref \<Rightarrow> object3d"
  sceneChildren :: "ref list"
  sceneFogColor :: color
  sceneBackground :: "color option"
  camera :: ref
  ambientLight :: ref
  sunMoonLight :: ref
  sunMoonLightTarget :: ref
  streetLights :: "ref list"
  coins :: "ref list"
  character :: ref
  carModel :: ref
  cameraTarget :: ref
  cameraTargetOffset :: vector3
  cameraAzimuthAngle :: real
  keysPressed :: "string \<Rightarrow> bool"
  isJumping :: bool
  velocityY :: real
  isInCar :: bool
  carSpeed :: real
  carSteeringInput :: real
  currentTimeOfDaySeconds :: real
  buildingColliders :: "box3 list"

subsection \<open>The constants of the class (lines 200-264, 299-300)\<close>

definition cycleDurationSeconds :: real where "cycleDurationSeconds = 120"
definition moveSpeed :: real where "moveSpeed = 4"
definition gravity :: real where "gravity = 20.0"
definition jumpStrength :: real where "jumpStrength = 8.0"
definition characterFeetY :: real where "characterFeetY = 0"
definition characterHeight :: real where "characterHeight = 1.8"
definition carAcceleration :: real where "carAcceleration = 12.0"
definition carDeceleration :: real where "carDeceleration = 15.0"
definition carMaxSpeed :: real where "carMaxSpeed = 25.0"
definition carReverseMaxSpeed :: real where "carReverseMaxSpeed = - 8.0"
definition carMaxSteeringAngleRad :: real where "carMaxSteeringAngleRad = pi / 7"
definition carWheelBase :: real where "carWheelBase = 2.8"
definition enterCarDistance :: real where "enterCarDistance = 3.0"
definition blockSize :: real where "blockSize = 20"
definition streetWidth :: real where "streetWidth = 6"
definition citySize :: real where "citySize = 10"
definition chunkSize :: real where "chunkSize = citySize * (blockSize + streetWidth)"

subsection \<open>Entering and leaving the car\<close>

text \<open>\<^verbatim>\<open>enterOrExitCar\<close> (lines 697-730).  The constructor creates the car before it
  installs the key handler, so the guard \<^verbatim>\<open>if (!this.carModel) return\<close> never fires.\<close>

definition enterOrExitCar :: "world \<Rightarrow> world" where
  "enterOrExitCar s =
     (if isInCar s then
        (let car = heap s (carModel s);
             carExitOffset = applyQuaternion (Vector3 1.5 0 0) (quaternionOfYaw (rotationY car));
             placed = (v_add (position car) carExitOffset)\<lparr>vy := characterFeetY\<rparr>
         in s\<lparr>isInCar := False,
              heap := (heap s)(character s :=
                        (heap s (character s))\<lparr>visible := True, position := placed\<rparr>),
              cameraTarget := character s,
              cameraTargetOffset := Vector3 0 (characterHeight * 0.8) 0,
              carSpeed := 0\<rparr>)
      else
        (let distanceToCar =
               distanceTo (position (heap s (character s))) (position (heap s (carModel s)))
         in if distanceToCar < enterCarDistance then
              s\<lparr>isInCar := True,
                heap := (heap s)(character s := (heap s (character s))\<lparr>visible := False\<rparr>),
                cameraTarget := carModel s,
                cameraTargetOffset := Vector3 0 1.5 0,
                carSpeed := 0,
                carSteeringInput := 0\<rparr>
            else s))"

subsection \<open>Walking\<close>

text \<open>\<^verbatim>\<open>updateCharacterMovement\<close> (lines 888-940) in its two parts: the horizontal move
  with its collision test (lines 889-905) and the jump physics (lines 924-939).\<close>

definition movementDirection :: "world \<Rightarrow> vector3" where
  "movementDirection s =
     (let forward = Vector3 (sin (cameraAzimuthAngle s)) 0 (cos (cameraAzimuthAngle s));
          right = Vector3 (sin (cameraAzimuthAngle s + pi / 2)) 0
                          (cos (cameraAzimuthAngle s + pi / 2));
          d0 = Vector3 0 0 0;
          d1 = (if keysPressed s ''w'' \<or> keysPressed s ''arrowup'' then v_add d0 forward else d0);
          d2 = (if keysPressed s ''s'' \<or> keysPressed s ''arrowdown'' then v_sub d1 forward else d1);
          d3 = (if keysPressed s ''a'' \<or> keysPressed s ''arrowleft'' then v_add d2 right else d2)
      in (if keysPressed s ''d'' \<or> keysPressed s ''arrowright'' then v_sub d3 right else d3))"

definition didMove :: "world \<Rightarrow> bool" where
  "didMove s =
     ((keysPressed s ''w'' \<or> keysPressed s ''arrowup'')
      \<or> (keysPressed s ''s'' \<or> keysPressed s ''arrowdown'')
      \<or> (keysPressed s ''a'' \<or> keysPressed s ''arrowleft'')
      \<or> (keysPressed s ''d'' \<or> keysPressed s ''arrowright''))"

definition characterCandidate :: "real \<Rightarrow> world \<Rightarrow> vector3" where
  "characterCandidate deltaTime s =
     v_add (position (heap s (character s)))
           (multiplyScalar (normalize (movementDirection s)) (moveSpeed * deltaTime))"

definition characterMove :: "real \<Rightarrow> world \<Rightarrow> world" where
  "characterMove deltaTime s =
     (if didMove s then
        (if \<not> collides (buildingColliders s) (characterCandidate deltaTime s) then
           s\<lparr>heap := (heap s)(character s :=
                (heap s (character s))\<lparr>position := characterCandidate deltaTime s\<rparr>)\<rparr>
         else s)
      else s)"

definition setCharacterY :: "real \<Rightarrow> world \<Rightarrow> world" where
  "setCharacterY h s =
     s\<lparr>heap := (heap s)(character s :=
          (heap s (character s))\<lparr>position := (position (heap s (character s)))\<lparr>vy := h\<rparr>\<rparr>)\<rparr>"

definition characterJump :: "real \<Rightarrow> world \<Rightarrow> world" where
  "characterJump deltaTime s =
     (if isJumping s then
        (let s1 = (setCharacterY (vy (position (heap s (character s))) + velocityY s * deltaTime) s)
                    \<lparr>velocityY := velocityY s - gravity * deltaTime\<rparr>
         in if vy (position (heap s1 (character s1))) \<le> characterFeetY then
              (setCharacterY characterFeetY s1)\<lparr>isJumping := False, velocityY := 0\<rparr>
            else s1)
      else
        (let s1 = (if vy (position (heap s (character s))) < characterFeetY
                      \<and> vy (position (heap s (character s))) > - 5
                   then setCharacterY characterFeetY s else s)
         in if vy (position (heap s1 (character s1))) < - 50 then
              s1\<lparr>heap := (heap s1)(character s1 :=
                    (heap s1 (character s1))\<lparr>position :=
                       Vector3 (vx (position (heap s1 (carModel s1))) + 3) (characterFeetY + 5)
                               (vz (position (heap s1 (carModel s1))))\<rparr>),
                 velocityY := 0, isJumping := False\<rparr>
            else s1))"

definition updateCharacterMovement :: "real \<Rightarrow> world \<Rightarrow> world" where
  "updateCharacterMovement deltaTime s = characterJump deltaTime (characterMove deltaTime s)"

subsection \<open>Driving\<close>

text \<open>\<^verbatim>\<open>updateCarMovement\<close> (lines 942-1021), without the engine sound and the wheels.
  The car and its body exist from the constructor on, so the guard of line 943 never
  fires.\<close>

definition accelerationInput :: "world \<Rightarrow> real" where
  "accelerationInput s =
     (let a = (if keysPressed s ''w'' \<or> keysPressed s ''arrowup'' then 1 else 0)
      in if keysPressed s ''s'' \<or> keysPressed s ''arrowdown'' then - 1 else a)"

definition steeringInput :: "world \<Rightarrow> real" where
  "steeringInput s =
     (if keysPressed s ''a'' \<or> keysPressed s ''arrowleft'' then 1
      else if keysPressed s ''d'' \<or> keysPressed s ''arrowright'' then - 1
      else 0)"

text \<open>Lines 957-966: acceleration or friction, then the clamp.\<close>

definition integrateSpeed :: "real \<Rightarrow> real \<Rightarrow> real \<Rightarrow> real" where
  "integrateSpeed accel deltaTime v =
     (let v1 = (if accel \<noteq> 0 then v + carAcceleration * accel * deltaTime
                else (let v2 = (if v > 0 then v - carDeceleration * deltaTime
                                else if v < 0 then v + carDeceleration * deltaTime
                                else v)
                      in if \<bar>v2\<bar> < 0.1 then 0 else v2))
      in max carReverseMaxSpeed (min carMaxSpeed v1))"

text \<open>Lines 969-975: the turning step and its guard.\<close>

definition steeringSine :: "real \<Rightarrow> real" where
  "steeringSine steering = sin (steering * carMaxSteeringAngleRad)"

definition turnRadius :: "real \<Rightarrow> real" where
  "turnRadius steering = carWheelBase / steeringSine steering"

definition turns :: "real \<Rightarrow> real \<Rightarrow> bool" where
  "turns speed steering = (speed \<noteq> 0 \<and> steering \<noteq> 0)"

definition carHeading :: "real \<Rightarrow> real \<Rightarrow> real \<Rightarrow> real \<Rightarrow> real" where
  "carHeading speed steering deltaTime yaw =
     (if turns speed steering then yaw + speed / turnRadius steering * deltaTime else yaw)"

definition carCandidate :: "real \<Rightarrow> world \<Rightarrow> vector3" where
  "carCandidate deltaTime s =
     (let speed = integrateSpeed (accelerationInput s) deltaTime (carSpeed s);
          yaw = carHeading speed (steeringInput s) deltaTime (rotationY (heap s (carModel s)));
          forwardVector = applyQuaternion (Vector3 0 0 1) (quaternionOfYaw yaw)
      in v_add (position (heap s (carModel s))) (multiplyScalar forwardVector (speed * deltaTime)))"

definition updateCarMovement :: "real \<Rightarrow> world \<Rightarrow> world" where
  "updateCarMovement deltaTime s =
     (let speed = integrateSpeed (accelerationInput s) deltaTime (carSpeed s);
          yaw = carHeading speed (steeringInput s) deltaTime (rotationY (heap s (carModel s)));
          car = (heap s (carModel s))\<lparr>rotationY := yaw\<rparr>;
          hit = collides (buildingColliders s) (carCandidate deltaTime s);
          moved = (if \<not> hit then car\<lparr>position := carCandidate deltaTime s\<rparr> else car)
      in s\<lparr>carSteeringInput := steeringInput s,
           carSpeed := (if \<not> hit then speed else 0),
           heap := (heap s)(carModel s := moved\<lparr>position := (position moved)\<lparr>vy := 0\<rparr>\<rparr>)\<rparr>)"

subsection \<open>Wrapping the world\<close>

text \<open>\<^verbatim>\<open>wrapWorld\<close> (lines 1046-1103).  \<^verbatim>\<open>cameraTarget\<close> is set by the constructor and is
  an object ever after, so \<^verbatim>\<open>this.cameraTarget || this.character\<close> is \<^verbatim>\<open>cameraTarget\<close> and the
  guards on the target, the character and the car never fire.\<close>

definition wrapOffset :: "real \<Rightarrow> real" where
  "wrapOffset coordinate =
     (if coordinate > chunkSize / 2 then - chunkSize
      else if coordinate < - (chunkSize / 2) then chunkSize
      else 0)"

definition translateObject :: "real \<Rightarrow> real \<Rightarrow> ref \<Rightarrow> (ref \<Rightarrow> object3d) \<Rightarrow> (ref \<Rightarrow> object3d)" where
  "translateObject offsetX offsetZ r h =
     h(r := (h r)\<lparr>position := translateVector offsetX offsetZ (position (h r))\<rparr>)"

definition isStreetLanternGroup :: "world \<Rightarrow> (ref \<Rightarrow> object3d) \<Rightarrow> ref \<Rightarrow> bool" where
  "isStreetLanternGroup s h obj =
     (isGroup (h obj) \<and> length (children (h obj)) > 0
      \<and> list_ex (\<lambda>child. isPointLight (h child) \<and> child \<in> set (streetLights s))
                 (children (h obj)))"

text \<open>The condition of line 1097, negated: the scene children the last loop leaves
  where they are.\<close>

definition wrapSkips :: "world \<Rightarrow> (ref \<Rightarrow> object3d) \<Rightarrow> ref \<Rightarrow> bool" where
  "wrapSkips s h obj =
     (let isPlayerCharacter = (obj = character s);
          isCar = (obj = carModel s);
          isSunMoon = (obj = sunMoonLight s \<or> obj = sunMoonLightTarget s);
          isACoin = (obj \<in> set (coins s))
      in \<not> (\<not> isPlayerCharacter \<and> \<not> isCar \<and> \<not> isSunMoon \<and> \<not> isACoin
             \<and> \<not> isStreetLanternGroup s h obj \<and> obj \<noteq> camera s))"

definition wrapSceneChild :: "world \<Rightarrow> real \<Rightarrow> real \<Rightarrow> ref \<Rightarrow> (ref \<Rightarrow> object3d) \<Rightarrow> (ref \<Rightarrow> object3d)" where
  "wrapSceneChild s offsetX offsetZ obj h =
     (if wrapSkips s h obj then h else translateObject offsetX offsetZ obj h)"

definition wrapOffsetX :: "world \<Rightarrow> real" where
  "wrapOffsetX s = wrapOffset (vx (position (heap s (cameraTarget s))))"

definition wrapOffsetZ :: "world \<Rightarrow> real" where
  "wrapOffsetZ s = wrapOffset (vz (position (heap s (cameraTarget s))))"

definition wrapWorld :: "world \<Rightarrow> world" where
  "wrapWorld s =
     (let offsetX = wrapOffsetX s;
          offsetZ = wrapOffsetZ s
      in if offsetX \<noteq> 0 \<or> offsetZ \<noteq> 0 then
           (let h1 = translateObject offsetX offsetZ (character s) (heap s);
                h2 = translateObject offsetX offsetZ (carModel s) h1;
                h3 = fold (translateObject offsetX offsetZ) (coins s) h2;
                h4 = fold (wrapSceneChild s offsetX offsetZ) (sceneChildren s) h3
            in s\<lparr>heap := h4,
                 buildingColliders := translateColliders offsetX offsetZ (buildingColliders s)\<rparr>)
         else s)"

text \<open>The objects \<^verbatim>\<open>wrapWorld\<close> translates: the two agents, the coins, and the scene
  children that line 1097 lets through.\<close>

definition wrapTranslated :: "world \<Rightarrow> ref list" where
  "wrapTranslated s =
     character s # carModel s # coins s
       @ filter (\<lambda>obj. \<not> wrapSkips s (heap s) obj) (sceneChildren s)"

text \<open>The objects of a world are distinct as far as \<^verbatim>\<open>wrapWorld\<close> depends on it: the
  constructor creates the character, the car and each coin by a \<^verbatim>\<open>new\<close> of its own and
  adds each object to the scene once.\<close>

definition distinctObjects :: "world \<Rightarrow> bool" where
  "distinctObjects s =
     (character s \<noteq> carModel s
      \<and> character s \<notin> set (coins s) \<and> carModel s \<notin> set (coins s)
      \<and> distinct (coins s) \<and> distinct (sceneChildren s))"

subsection \<open>Day and night\<close>

text \<open>\<^verbatim>\<open>updateDayNightCycle\<close> (lines 823-885) with its helpers \<^verbatim>\<open>lerpScalar\<close> and
  \<^verbatim>\<open>lerpColor\<close> (lines 813-820); \<^verbatim>\<open>Color.lerp\<close> of three.js moves each channel by
  \<^verbatim>\<open>(other - this) * alpha\<close>.  The remainder \<^verbatim>\<open>a % b\<close> of JavaScript takes the sign of the
  dividend: it is \<open>a - b * trunc (a / b)\<close>.\<close>

definition jsMod :: "real \<Rightarrow> real \<Rightarrow> real" where
  "jsMod a b = a - b * of_int (if 0 \<le> a / b then \<lfloor>a / b\<rfloor> else \<lceil>a / b\<rceil>)"

definition lerpScalar :: "real \<Rightarrow> real \<Rightarrow> real \<Rightarrow> real" where
  "lerpScalar value1 value2 t = value1 * (1 - t) + value2 * t"

definition lerpColor :: "color \<Rightarrow> color \<Rightarrow> real \<Rightarrow> color" where
  "lerpColor color1 color2 t =
     \<lparr>cr = cr color1 + (cr color2 - cr color1) * t,
      cg = cg color1 + (cg color2 - cg color1) * t,
      cb = cb color1 + (cb color2 - cb color1) * t\<rparr>"

record keyframe =
  time :: real
  sunIntensity :: real
  sunColor :: color
  ambientIntensity :: real
  ambientColor :: color
  fogColor :: color

text \<open>The table of lines 828-836.  The colours are the literals \<^verbatim>\<open>0x102040\<close>,
  \<^verbatim>\<open>0x051015\<close>, \<^verbatim>\<open>0x000510\<close> (night), \<^verbatim>\<open>0x8060a0\<close>, \<^verbatim>\<open>0x202030\<close>, \<^verbatim>\<open>0x101020\<close> (dawn),
  \<^verbatim>\<open>0xffddaa\<close>, \<^verbatim>\<open>0x404060\<close>, \<^verbatim>\<open>0x87CEEB\<close> (day) and \<^verbatim>\<open>0xff8c60\<close>, \<^verbatim>\<open>0x302020\<close>,
  \<^verbatim>\<open>0x604030\<close> (dusk), in decimal.\<close>

definition keyframes :: "keyframe list" where
  "keyframes =
     [\<lparr>time = 0, sunIntensity = 0.1, sunColor = colorOfHex 1056832,
       ambientIntensity = 0.1, ambientColor = colorOfHex 331797, fogColor = colorOfHex 1296\<rparr>,
      \<lparr>time = 0.20, sunIntensity = 0.4, sunColor = colorOfHex 8413344,
       ambientIntensity = 0.3, ambientColor = colorOfHex 2105392, fogColor = colorOfHex 1052704\<rparr>,
      \<lparr>time = 0.25, sunIntensity = 1.0, sunColor = colorOfHex 16768426,
       ambientIntensity = 0.8, ambientColor = colorOfHex 4210784, fogColor = colorOfHex 8900331\<rparr>,
      \<lparr>time = 0.30, sunIntensity = 1.0, sunColor = colorOfHex 16768426,
       ambientIntensity = 0.8, ambientColor = colorOfHex 4210784, fogColor = colorOfHex 8900331\<rparr>,
      \<lparr>time = 0.70, sunIntensity = 0.6, sunColor = colorOfHex 16747616,
       ambientIntensity = 0.5, ambientColor = colorOfHex 3153952, fogColor = colorOfHex 6307888\<rparr>,
      \<lparr>time = 0.75, sunIntensity = 0.1, sunColor = colorOfHex 1056832,
       ambientIntensity = 0.1, ambientColor = colorOfHex 331797, fogColor = colorOfHex 1296\<rparr>,
      \<lparr>time = 1.0, sunIntensity = 0.1, sunColor = colorOfHex 1056832,
       ambientIntensity = 0.1, ambientColor = colorOfHex 331797, fogColor = colorOfHex 1296\<rparr>]"

text \<open>The scan of lines 838-847: the first frame whose time is above the phase, with the
  frame before it; the first two frames when there is none.\<close>

fun findFrames :: "real \<Rightarrow> keyframe list \<Rightarrow> (keyframe \<times> keyframe) option" where
  "findFrames phase (prevFrame # nextFrame # frames) =
     (if phase < time nextFrame then Some (prevFrame, nextFrame)
      else findFrames phase (nextFrame # frames))"
| "findFrames phase frames = None"

definition boundingFrames :: "real \<Rightarrow> keyframe \<times> keyframe" where
  "boundingFrames phase =
     (case findFrames phase keyframes of
        Some frames \<Rightarrow> frames
      | None \<Rightarrow> (keyframes ! 0, keyframes ! 1))"

text \<open>Lines 849-865: every channel interpolated with the same \<open>t\<close>.\<close>

definition interpolate :: "real \<Rightarrow> keyframe" where
  "interpolate phase =
     (let prevFrame = fst (boundingFrames phase);
          nextFrame = snd (boundingFrames phase);
          t = (phase - time prevFrame) / (time nextFrame - time prevFrame)
      in \<lparr>time = phase,
          sunIntensity = lerpScalar (sunIntensity prevFrame) (sunIntensity nextFrame) t,
          sunColor = lerpColor (sunColor prevFrame) (sunColor nextFrame) t,
          ambientIntensity = lerpScalar (ambientIntensity prevFrame) (ambientIntensity nextFrame) t,
          ambientColor = lerpColor (ambientColor prevFrame) (ambientColor nextFrame) t,
          fogColor = lerpColor (fogColor prevFrame) (fogColor nextFrame) t\<rparr>)"

definition easeStreetLight :: "real \<Rightarrow> real \<Rightarrow> ref \<Rightarrow> (ref \<Rightarrow> object3d) \<Rightarrow> (ref \<Rightarrow> object3d)" where
  "easeStreetLight target deltaTime light h =
     h(light := (h light)\<lparr>intensity := lerpScalar (intensity (h light)) target (deltaTime * 1.0)\<rparr>)"

text \<open>The fog is a \<^verbatim>\<open>THREE.Fog\<close> from \<^verbatim>\<open>init\<close> on; the background is written only while it
  is a colour.\<close>

definition updateDayNightCycle :: "real \<Rightarrow> world \<Rightarrow> world" where
  "updateDayNightCycle deltaTime s =
     (let now = jsMod (currentTimeOfDaySeconds s + deltaTime) cycleDurationSeconds;
          phase = now / cycleDurationSeconds;
          frame = interpolate phase;
          h1 = (heap s)(sunMoonLight s :=
                  (heap s (sunMoonLight s))\<lparr>intensity := sunIntensity frame, color := sunColor frame\<rparr>);
          h2 = h1(ambientLight s :=
                  (h1 (ambientLight s))\<lparr>intensity := ambientIntensity frame,
                                          color := ambientColor frame\<rparr>);
          sunAngle = phase * pi * 2;
          h3 = h2(sunMoonLight s :=
                  (h2 (sunMoonLight s))\<lparr>position :=
                     Vector3 (cos (sunAngle - pi / 2) * 70) (sin (sunAngle - pi / 2) * 70) 30\<rparr>);
          isNightTime = (intensity (h3 (sunMoonLight s)) < 0.3);
          targetStreetLightIntensity = (if isNightTime then 1.5 else 0);
          h4 = fold (easeStreetLight targetStreetLightIntensity deltaTime) (streetLights s) h3
      in s\<lparr>currentTimeOfDaySeconds := now,
           heap := h4,
           sceneFogColor := fogColor frame,
           sceneBackground := map_option (\<lambda>background. fogColor frame) (sceneBackground s)\<rparr>)"

text \<open>What the renderer reads after a tick: the phase and the interpolated channels.\<close>

definition currentLighting :: "world \<Rightarrow> keyframe" where
  "currentLighting s =
     \<lparr>time = currentTimeOfDaySeconds s / cycleDurationSeconds,
      sunIntensity = intensity (heap s (sunMoonLight s)),
      sunColor = color (heap s (sunMoonLight s)),
      ambientIntensity = intensity (heap s (ambientLight s)),
      ambientColor = color (heap s (ambientLight s)),
      fogColor = sceneFogColor s\<rparr>"

definition dayTicks :: "real list \<Rightarrow> world \<Rightarrow> world" where
  "dayTicks deltaTimes s = fold updateDayNightCycle deltaTimes s"

subsection \<open>Frames and input events\<close>

text \<open>\<^verbatim>\<open>updateGameLogic\<close> (lines 742-754), without the camera orbit and the coins, which
  write no position of an agent.  Between frames the handlers of \<^verbatim>\<open>setupControls\<close>
  (lines 670-695) run: a key event rewrites \<^verbatim>\<open>keysPressed\<close>, the space bar starts a jump
  when on foot and grounded, and the key F toggles the car.\<close>

definition updateGameLogic :: "real \<Rightarrow> world \<Rightarrow> world" where
  "updateGameLogic deltaTime s =
     (let s1 = updateDayNightCycle deltaTime s;
          s2 = (if isInCar s1 then updateCarMovement deltaTime s1
                else updateCharacterMovement deltaTime s1)
      in wrapWorld s2)"

datatype event = Frame real | Keys "string \<Rightarrow> bool" | Jump | Toggle

fun applyEvent :: "event \<Rightarrow> world \<Rightarrow> world" where
  "applyEvent (Frame deltaTime) s = updateGameLogic deltaTime s"
| "applyEvent (Keys keys) s = s\<lparr>keysPressed := keys\<rparr>"
| "applyEvent Jump s =
     (if \<not> isInCar s \<and> \<not> isJumping s then s\<lparr>isJumping := True, velocityY := jumpStrength\<rparr>
      else s)"
| "applyEvent Toggle s = enterOrExitCar s"

definition runEvents :: "event list \<Rightarrow> world \<Rightarrow> world" where
  "runEvents events s = fold applyEvent events s"

text \<open>The car is an object of its own and stands at height 0.\<close>

definition carOnGround :: "world \<Rightarrow> bool" where
  "carOnGround s =
     (character s \<noteq> carModel s \<and> sunMoonLight s \<noteq> carModel s
      \<and> vy (position (heap s (carModel s))) = 0)"

subsection \<open>A sequence of driving ticks\<close>

text \<open>Between two ticks the key handlers (lines 671-688) rewrite \<^verbatim>\<open>keysPressed\<close>; a tick of
  vehicle mode then runs \<^verbatim>\<open>updateCarMovement\<close> with the frame's \<^verbatim>\<open>deltaTime\<close>.\<close>

fun driveTicks :: "((string \<Rightarrow> bool) \<times> real) list \<Rightarrow> world \<Rightarrow> world" where
  "driveTicks [] s = s"
| "driveTicks ((keys, deltaTime) # rest) s =
     driveTicks rest (updateCarMovement deltaTime (s\<lparr>keysPressed := keys\<rparr>))"

subsection \<open>A small world\<close>

text \<open>
  A world as the constructor builds it, with one object of each kind: the lights of
  \<^verbatim>\<open>init\<close>, the character and the car at their spawn points (lines 553-564), the ground,
  one street, one street lantern with its point light, one building with its collider and
  one coin.  The scene children stand in the order of their \<^verbatim>\<open>scene.add\<close>.  The camera is
  never added to the scene; \<^verbatim>\<open>loadTextures\<close> has replaced the background colour by the
  environment map.
\<close>

definition blankObject :: object3d where
  "blankObject =
     \<lparr>position = Vector3 0 0 0, rotationY = 0, visible = True, isGroup = False,
      isPointLight = False, children = [], intensity = 1, color = colorOfHex 16777215\<rparr>"

definition exampleHeap :: "ref \<Rightarrow> object3d" where
  "exampleHeap =
     (\<lambda>r. blankObject)
       (1 := blankObject\<lparr>intensity := 0.8, color := colorOfHex 4210784\<rparr>,
        2 := blankObject\<lparr>position := Vector3 30 50 20, intensity := 1.0,
                          color := colorOfHex 16768426\<rparr>,
        4 := blankObject\<lparr>position := Vector3 3 0 2, isGroup := True\<rparr>,
        5 := blankObject\<lparr>position := Vector3 0 0 2, isGroup := True\<rparr>,
        6 := blankObject\<lparr>position := Vector3 0 (- 0.05) 0\<rparr>,
        7 := blankObject\<lparr>position := Vector3 (- 117) 0 (- 130)\<rparr>,
        8 := blankObject\<lparr>position := Vector3 (- 126) 0 (- 133.5), isGroup := True,
                          children := [9]\<rparr>,
        9 := blankObject\<lparr>position := Vector3 0 4.8 0, isPointLight := True, intensity := 2,
                          color := colorOfHex 16768426\<rparr>,
        10 := blankObject\<lparr>position := Vector3 13 4 13\<rparr>,
        11 := blankObject\<lparr>position := Vector3 (- 117) 0.15 (- 131)\<rparr>)"

definition exampleWorld :: world where
  "exampleWorld =
     \<lparr>heap = exampleHeap,
      sceneChildren = [1, 2, 3, 4, 5, 6, 7, 8, 10, 11],
      sceneFogColor = colorOfHex 4137,
      sceneBackground = None,
      camera = 0,
      ambientLight = 1,
      sunMoonLight = 2,
      sunMoonLightTarget = 3,
      streetLights = [9],
      coins = [11],
      character = 4,
      carModel = 5,
      cameraTarget = 4,
      cameraTargetOffset = Vector3 0 (characterHeight * 0.8) 0,
      cameraAzimuthAngle = 0,
      keysPressed = (\<lambda>key. False),
      isJumping = False,
      velocityY = 0,
      isInCar = False,
      carSpeed = 0,
      carSteeringInput = 0,
      currentTimeOfDaySeconds = cycleDurationSeconds / 4,
      buildingColliders = [buildingCollider 13 13 10 8 10]\<rparr>"

text \<open>The same world with the player in the car.\<close>

definition exampleDriving :: world where
  "exampleDriving =
     exampleWorld\<lparr>isInCar := True, cameraTarget := carModel exampleWorld,
                  cameraTargetOffset := Vector3 0 1.5 0,
                  heap := (heap exampleWorld)(character exampleWorld :=
                            (heap exampleWorld (character exampleWorld))\<lparr>visible := False\<rparr>)\<rparr>"

text \<open>The car at speed 10 one step in front of the building, the character walking
  into the same wall, and the driver accelerating while steering left.\<close>

definition exampleCrash :: world where
  "exampleCrash =
     exampleDriving\<lparr>carSpeed := 10,
                    heap := (heap exampleDriving)(carModel exampleDriving :=
                              (heap exampleDriving (carModel exampleDriving))
                                \<lparr>position := Vector3 13 0 7\<rparr>)\<rparr>"

definition exampleBlockedWalk :: world where
  "exampleBlockedWalk =
     exampleWorld\<lparr>keysPressed := (\<lambda>key. key = ''w''),
                  heap := (heap exampleWorld)(character exampleWorld :=
                            (heap exampleWorld (character exampleWorld))
                              \<lparr>position := Vector3 13 0 7\<rparr>)\<rparr>"

definition exampleTurning :: world where
  "exampleTurning = exampleDriving\<lparr>keysPressed := (\<lambda>key. key = ''w'' \<or> key = ''a'')\<rparr>"

text \<open>The car just past the eastern bound of the chunk, the car far past it after a long
  frame, and the character one step from the car.\<close>

definition exampleWrap :: world where
  "exampleWrap =
     exampleDriving\<lparr>heap := (heap exampleDriving)(carModel exampleDriving :=
                              (heap exampleDriving (carModel exampleDriving))
                                \<lparr>position := Vector3 131 0 2\<rparr>)\<rparr>"

definition exampleOvershoot :: world where
  "exampleOvershoot =
     exampleDriving\<lparr>heap := (heap exampleDriving)(carModel exampleDriving :=
                              (heap exampleDriving (carModel exampleDriving))
                                \<lparr>position := Vector3 400 0 2\<rparr>)\<rparr>"

definition exampleNearCar :: world where
  "exampleNearCar =
     exampleWorld\<lparr>heap := (heap exampleWorld)(character exampleWorld :=
                            (heap exampleWorld (character exampleWorld))
                              \<lparr>position := Vector3 1 0 2\<rparr>)\<rparr>"

text \<open>The character one step from the car, the car turned a quarter turn to the left.\<close>

definition exampleTurnedCar :: world where
  "exampleTurnedCar =
     exampleNearCar\<lparr>heap := (heap exampleNearCar)(carModel exampleNearCar :=
                              (heap exampleNearCar (carModel exampleNearCar))
                                \<lparr>rotationY := pi / 2\<rparr>)\<rparr>"

section \<open>Unfolding the model\<close>

lemmas vector_defs = Vector3_def v_add_def v_sub_def multiplyScalar_def applyQuaternion_def
  quaternionOfYaw_def v_length_def normalize_def distanceTo_def
lemmas constant_defs = cycleDurationSeconds_def moveSpeed_def gravity_def jumpStrength_def
  characterFeetY_def characterHeight_def carAcceleration_def carDeceleration_def carMaxSpeed_def
  carReverseMaxSpeed_def carMaxSteeringAngleRad_def carWheelBase_def enterCarDistance_def
  blockSize_def streetWidth_def citySize_def chunkSize_def
lemmas example_defs = exampleDriving_def exampleWorld_def exampleHeap_def blankObject_def
  exampleCrash_def exampleBlockedWalk_def exampleTurning_def exampleWrap_def
  exampleOvershoot_def exampleNearCar_def buildingCollider_def
lemmas car_defs = updateCarMovement_def carCandidate_def carHeading_def turns_def
  turnRadius_def steeringSine_def integrateSpeed_def accelerationInput_def steeringInput_def
lemmas walk_defs = updateCharacterMovement_def characterMove_def characterJump_def
  characterCandidate_def movementDirection_def didMove_def setCharacterY_def

section \<open>The small world, evaluated\<close>

lemma exampleWrap_fields:
  "character exampleWrap = 4" "carModel exampleWrap = 5" "cameraTarget exampleWrap = 5"
  "coins exampleWrap = [11]" "sceneChildren exampleWrap = [1, 2, 3, 4, 5, 6, 7, 8, 10, 11]"
  "sunMoonLight exampleWrap = 2" "sunMoonLightTarget exampleWrap = 3" "camera exampleWrap = 0"
  "streetLights exampleWrap = [9]"
  "buildingColliders exampleWrap = [buildingCollider 13 13 10 8 10]"
  by (simp_all add: exampleWrap_def exampleDriving_def exampleWorld_def)

lemma exampleWrap_positions:
  "position (heap exampleWrap 5) = Vector3 131 0 2"
  "position (heap exampleWrap 4) = Vector3 3 0 2"
  "position (heap exampleWrap 2) = Vector3 30 50 20"
  "position (heap exampleWrap 8) = Vector3 (- 126) 0 (- 133.5)"
  "position (heap exampleWrap 10) = Vector3 13 4 13"
  "position (heap exampleWrap 11) = Vector3 (- 117) 0.15 (- 131)"
  by (simp_all add: exampleWrap_def exampleDriving_def exampleWorld_def exampleHeap_def
      blankObject_def)

lemma exampleWrap_offsets: "wrapOffsetX exampleWrap = - 260" "wrapOffsetZ exampleWrap = 0"
  by (simp_all add: wrapOffsetX_def wrapOffsetZ_def wrapOffset_def exampleWrap_fields
      exampleWrap_positions Vector3_def chunkSize_def citySize_def blockSize_def streetWidth_def)

lemma exampleWrap_distinct: "distinctObjects exampleWrap"
  by (simp add: distinctObjects_def exampleWrap_fields)

lemma exampleWrap_lantern: "isStreetLanternGroup exampleWrap (heap exampleWrap) 8"
  by (simp add: isStreetLanternGroup_def exampleWrap_def exampleDriving_def exampleWorld_def
      exampleHeap_def blankObject_def)

lemma exampleWrap_translated: "wrapTranslated exampleWrap = [4, 5, 11, 1, 6, 7, 10]"
  by (simp add: wrapTranslated_def wrapSkips_def exampleWrap_fields isStreetLanternGroup_def
      exampleWrap_def exampleDriving_def exampleWorld_def exampleHeap_def blankObject_def)

lemma exampleOvershoot_fields:
  "character exampleOvershoot = 4" "carModel exampleOvershoot = 5"
  "cameraTarget exampleOvershoot = 5" "coins exampleOvershoot = [11]"
  "sceneChildren exampleOvershoot = [1, 2, 3, 4, 5, 6, 7, 8, 10, 11]"
  "position (heap exampleOvershoot 5) = Vector3 400 0 2"
  by (simp_all add: exampleOvershoot_def exampleDriving_def exampleWorld_def exampleHeap_def
      blankObject_def)

lemma exampleCrash_car:
  "carModel exampleCrash = 5"
  "position (heap exampleCrash 5) = Vector3 13 0 7"
  "rotationY (heap exampleCrash 5) = 0"
  "carSpeed exampleCrash = 10"
  "buildingColliders exampleCrash = [buildingCollider 13 13 10 8 10]"
  "accelerationInput exampleCrash = 0"
  "steeringInput exampleCrash = 0"
  by (simp_all add: exampleCrash_def exampleDriving_def exampleWorld_def exampleHeap_def
      blankObject_def accelerationInput_def steeringInput_def)

lemma exampleCrash_candidate: "carCandidate (1 / 5) exampleCrash = Vector3 13 0 (42 / 5)"
  by (simp add: carCandidate_def exampleCrash_car integrateSpeed_def carHeading_def turns_def
      constant_defs vector_defs Let_def)

lemma exampleBlockedWalk_character:
  "character exampleBlockedWalk = 4"
  "position (heap exampleBlockedWalk 4) = Vector3 13 0 7"
  "carSpeed exampleBlockedWalk = 0"
  "buildingColliders exampleBlockedWalk = [buildingCollider 13 13 10 8 10]"
  "didMove exampleBlockedWalk"
  "movementDirection exampleBlockedWalk = Vector3 0 0 1"
  by (simp_all add: exampleBlockedWalk_def exampleWorld_def exampleHeap_def
      blankObject_def didMove_def movementDirection_def Let_def Vector3_def v_add_def v_sub_def)

lemma exampleBlockedWalk_candidate:
  "characterCandidate (1 / 2) exampleBlockedWalk = Vector3 13 0 9"
  by (simp add: characterCandidate_def exampleBlockedWalk_character moveSpeed_def vector_defs)

lemma exampleTurning_car:
  "carModel exampleTurning = 5"
  "rotationY (heap exampleTurning 5) = 0"
  "carSpeed exampleTurning = 0"
  "accelerationInput exampleTurning = 1"
  "steeringInput exampleTurning = 1"
  by (simp_all add: exampleTurning_def exampleDriving_def exampleWorld_def exampleHeap_def
      blankObject_def accelerationInput_def steeringInput_def)

lemma exampleDriving_car:
  "character exampleDriving = 4"
  "carModel exampleDriving = 5"
  "isInCar exampleDriving"
  "position (heap exampleDriving 5) = Vector3 0 0 2"
  "rotationY (heap exampleDriving 5) = 0"
  "carSpeed exampleDriving = 0"
  "accelerationInput exampleDriving = 0"
  "steeringInput exampleDriving = 0"
  by (simp_all add: exampleDriving_def exampleWorld_def exampleHeap_def
      blankObject_def accelerationInput_def steeringInput_def)

lemma exampleNearCar_fields:
  "character exampleNearCar = 4"
  "carModel exampleNearCar = 5"
  "\<not> isInCar exampleNearCar"
  "position (heap exampleNearCar 4) = Vector3 1 0 2"
  "position (heap exampleNearCar 5) = Vector3 0 0 2"
  "rotationY (heap exampleNearCar 5) = 0"
  by (simp_all add: exampleNearCar_def exampleWorld_def exampleHeap_def blankObject_def)

lemma exampleTurnedCar_fields:
  "character exampleTurnedCar = 4"
  "carModel exampleTurnedCar = 5"
  "\<not> isInCar exampleTurnedCar"
  "position (heap exampleTurnedCar 4) = Vector3 1 0 2"
  "position (heap exampleTurnedCar 5) = Vector3 0 0 2"
  "rotationY (heap exampleTurnedCar 5) = pi / 2"
  by (simp_all add: exampleTurnedCar_def exampleNearCar_def exampleWorld_def exampleHeap_def
      blankObject_def)

lemma exampleWorld_lights:
  "sunMoonLight exampleWorld = 2" "ambientLight exampleWorld = 1"
  "streetLights exampleWorld = [9]" "currentTimeOfDaySeconds exampleWorld = 30"
  by (simp_all add: exampleWorld_def cycleDurationSeconds_def)

lemma jsMod_examples:
  "jsMod 130 120 = 10" "jsMod 60 120 = 60" "jsMod 84 120 = 84" "jsMod 96 120 = 96"
  by (simp_all add: jsMod_def)

section \<open>Collision queries\<close>

lemma collides_iff: "collides boxes pos = (\<exists>b \<in> set boxes. containsPoint b pos)"
  by (induction boxes) auto

lemma containsPoint_translateBox:
  "containsPoint (translateBox dx dz b) p = containsPoint b (p\<lparr>vx := vx p - dx, vz := vz p - dz\<rparr>)"
  by (auto simp: containsPoint_def translateBox_def translateVector_def)

lemma containsPoint_footprint:
  "containsPoint b p
     = (inFootprint b p \<and> vy (box_min b) \<le> vy p \<and> vy p \<le> vy (box_max b))"
  unfolding containsPoint_def inFootprint_def by (simp add: not_less) blast

text \<open>
  C1 (as amended): \<^verbatim>\<open>collides(p)\<close> is true exactly when, for some stored box, the
  horizontal coordinates of \<open>p\<close> lie inside the footprint of the box and the height of
  \<open>p\<close> lies within the vertical range of the box.  The height is part of the test.
\<close>

theorem collides_footprint_and_height:
  "collides boxes p =
     (\<exists>b \<in> set boxes. inFootprint b p \<and> vy (box_min b) \<le> vy p \<and> vy p \<le> vy (box_max b))"
  by (simp only: collides_iff containsPoint_footprint)

text \<open>
  C1 as stated fails: above the collider of a building of height 8, a point at height 20
  whose horizontal coordinates are the centre of the footprint is not reported as blocked.
\<close>

theorem collides_ignores_height_counterexample:
  "inFootprint (buildingCollider 13 13 10 8 10) (Vector3 13 20 13)
   \<and> \<not> collides [buildingCollider 13 13 10 8 10] (Vector3 13 20 13)
   \<and> collides [buildingCollider 13 13 10 8 10] (Vector3 13 0 13)"
  by (simp add: buildingCollider_def Vector3_def containsPoint_def inFootprint_def)

text \<open>
  C6: translating every stored collider by \<open>(dx, dz)\<close> shifts the query: the query at
  \<open>p\<close> after the translation is the query at \<open>p - (dx, dz)\<close> before it.
\<close>

theorem collides_translateColliders:
  "collides (translateColliders dx dz boxes) p
     = collides boxes (p\<lparr>vx := vx p - dx, vz := vz p - dz\<rparr>)"
  by (simp add: collides_iff translateColliders_def containsPoint_translateBox)

section \<open>Driving and walking\<close>

lemma integrateSpeed_range:
  "carReverseMaxSpeed \<le> integrateSpeed a dt v \<and> integrateSpeed a dt v \<le> carMaxSpeed"
  by (simp add: integrateSpeed_def Let_def carReverseMaxSpeed_def carMaxSpeed_def)

lemma carSpeed_updateCarMovement:
  "carSpeed (updateCarMovement dt s) =
     (if collides (buildingColliders s) (carCandidate dt s) then 0
      else integrateSpeed (accelerationInput s) dt (carSpeed s))"
  by (simp add: updateCarMovement_def Let_def)

lemma updateCarMovement_range:
  "carReverseMaxSpeed \<le> carSpeed (updateCarMovement dt s)
   \<and> carSpeed (updateCarMovement dt s) \<le> carMaxSpeed"
  using integrateSpeed_range [of "accelerationInput s" dt "carSpeed s"]
  by (simp add: carSpeed_updateCarMovement carReverseMaxSpeed_def carMaxSpeed_def)

lemma car_position_updateCarMovement:
  "position (heap (updateCarMovement dt s) (carModel s)) =
     (if collides (buildingColliders s) (carCandidate dt s)
      then position (heap s (carModel s)) else carCandidate dt s)\<lparr>vy := 0\<rparr>"
  by (simp add: updateCarMovement_def Let_def)

lemma characterMove_blocked:
  "didMove s \<Longrightarrow> collides (buildingColliders s) (characterCandidate dt s) \<Longrightarrow>
     characterMove dt s = s"
  by (simp add: characterMove_def)

lemma carSpeed_characterJump: "carSpeed (characterJump dt s) = carSpeed s"
  by (simp add: characterJump_def setCharacterY_def Let_def)

lemma characterJump_horizontal:
  "- 50 \<le> vy (position (heap s (character s))) \<Longrightarrow>
     vx (position (heap (characterJump dt s) (character s))) = vx (position (heap s (character s)))
     \<and> vz (position (heap (characterJump dt s) (character s))) = vz (position (heap s (character s)))"
  by (simp add: characterJump_def setCharacterY_def Let_def characterFeetY_def)

text \<open>
  C5: after every tick of vehicle mode, whatever the keys and the frame times of the
  ticks so far, the speed of the car lies between \<open>carReverseMaxSpeed\<close> and \<open>carMaxSpeed\<close>.
\<close>

theorem driveTicks_speed_range:
  "ticks \<noteq> [] \<Longrightarrow>
     carReverseMaxSpeed \<le> carSpeed (driveTicks ticks s)
     \<and> carSpeed (driveTicks ticks s) \<le> carMaxSpeed"
proof (induction ticks arbitrary: s)
  case Nil
  then show ?case by simp
next
  case (Cons tick rest)
  obtain keys dt where tick: "tick = (keys, dt)" by (cases tick)
  show ?case
  proof (cases rest)
    case Nil
    then show ?thesis using tick updateCarMovement_range by simp
  next
    case (Cons t ts)
    then show ?thesis using tick Cons.IH by simp
  qed
qed

theorem driveTicks_speed_range_witness:
  "[(\<lambda>key. key = ''w'', 1 / 2), (\<lambda>key. key = ''w'', 100)] \<noteq> []
   \<and> carReverseMaxSpeed
       \<le> carSpeed (driveTicks [(\<lambda>key. key = ''w'', 1 / 2), (\<lambda>key. key = ''w'', 100)] exampleDriving)
   \<and> carSpeed (driveTicks [(\<lambda>key. key = ''w'', 1 / 2), (\<lambda>key. key = ''w'', 100)] exampleDriving)
       \<le> carMaxSpeed
   \<and> carSpeed (driveTicks [(\<lambda>key. key = ''w'', 1 / 2), (\<lambda>key. key = ''w'', 100)] exampleDriving) = 25"
  using driveTicks_speed_range
          [of "[(\<lambda>key. key = ''w'', 1 / 2), (\<lambda>key. key = ''w'', 100)]" exampleDriving]
  by (simp add: example_defs car_defs vector_defs constant_defs containsPoint_def Let_def)

lemma carSpeed_wrapWorld: "carSpeed (wrapWorld s) = carSpeed s"
  by (simp add: wrapWorld_def Let_def)

lemma isInCar_updateDayNightCycle: "isInCar (updateDayNightCycle dt s) = isInCar s"
  by (simp add: updateDayNightCycle_def Let_def)

text \<open>The same bound for a whole frame of \<^verbatim>\<open>updateGameLogic\<close> in vehicle mode: the day/night
  update and the wrap leave the speed alone.\<close>

lemma updateGameLogic_speed_range:
  "isInCar s \<Longrightarrow>
     carReverseMaxSpeed \<le> carSpeed (updateGameLogic dt s)
     \<and> carSpeed (updateGameLogic dt s) \<le> carMaxSpeed"
  using updateCarMovement_range [of dt "updateDayNightCycle dt s"]
  by (simp add: updateGameLogic_def Let_def carSpeed_wrapWorld isInCar_updateDayNightCycle)

text \<open>
  C3: in vehicle mode, when the candidate position collides, the tick leaves the
  horizontal position of the car as it was and sets its speed to 0.  On foot, when the
  candidate collides, the move leaves the position of the character as it was and zeroes
  no speed: the speed of the car and the vertical velocity are as before the move, and
  over the whole tick only the jump physics acts on the character.
\<close>

theorem collision_rejects_move:
  "(collides (buildingColliders s) (carCandidate dt s) \<longrightarrow>
      vx (position (heap (updateCarMovement dt s) (carModel s))) = vx (position (heap s (carModel s)))
      \<and> vz (position (heap (updateCarMovement dt s) (carModel s))) = vz (position (heap s (carModel s)))
      \<and> carSpeed (updateCarMovement dt s) = 0)
   \<and> (didMove s \<and> collides (buildingColliders s) (characterCandidate dt s) \<longrightarrow>
      position (heap (characterMove dt s) (character s)) = position (heap s (character s))
      \<and> carSpeed (characterMove dt s) = carSpeed s
      \<and> velocityY (characterMove dt s) = velocityY s
      \<and> carSpeed (updateCharacterMovement dt s) = carSpeed s
      \<and> (- 50 \<le> vy (position (heap s (character s))) \<longrightarrow>
           vx (position (heap (updateCharacterMovement dt s) (character s)))
             = vx (position (heap s (character s)))
           \<and> vz (position (heap (updateCharacterMovement dt s) (character s)))
             = vz (position (heap s (character s)))))"
  by (simp add: carSpeed_updateCarMovement car_position_updateCarMovement characterMove_blocked
      updateCharacterMovement_def characterJump_horizontal carSpeed_characterJump)

theorem collision_rejects_move_witness:
  "collides (buildingColliders exampleCrash) (carCandidate (1 / 5) exampleCrash)
   \<and> position (heap exampleCrash (carModel exampleCrash)) = Vector3 13 0 7
   \<and> carSpeed exampleCrash = 10
   \<and> vx (position (heap (updateCarMovement (1 / 5) exampleCrash) (carModel exampleCrash))) = 13
   \<and> vz (position (heap (updateCarMovement (1 / 5) exampleCrash) (carModel exampleCrash))) = 7
   \<and> carSpeed (updateCarMovement (1 / 5) exampleCrash) = 0
   \<and> didMove exampleBlockedWalk
   \<and> collides (buildingColliders exampleBlockedWalk) (characterCandidate (1 / 2) exampleBlockedWalk)
   \<and> - 50 \<le> vy (position (heap exampleBlockedWalk (character exampleBlockedWalk)))
   \<and> position (heap (characterMove (1 / 2) exampleBlockedWalk) (character exampleBlockedWalk))
      = Vector3 13 0 7
   \<and> carSpeed (updateCharacterMovement (1 / 2) exampleBlockedWalk) = carSpeed exampleBlockedWalk
   \<and> vx (position (heap (updateCharacterMovement (1 / 2) exampleBlockedWalk)
                          (character exampleBlockedWalk))) = 13
   \<and> vz (position (heap (updateCharacterMovement (1 / 2) exampleBlockedWalk)
                          (character exampleBlockedWalk))) = 7"
proof -
  have car: "collides (buildingColliders exampleCrash) (carCandidate (1 / 5) exampleCrash)"
    by (simp add: exampleCrash_candidate exampleCrash_car buildingCollider_def Vector3_def
        containsPoint_def)
  have foot: "collides (buildingColliders exampleBlockedWalk)
                (characterCandidate (1 / 2) exampleBlockedWalk)"
    by (simp add: exampleBlockedWalk_candidate exampleBlockedWalk_character buildingCollider_def
        Vector3_def containsPoint_def)
  show ?thesis
    using collision_rejects_move [of exampleCrash "1 / 5"]
      collision_rejects_move [of exampleBlockedWalk "1 / 2"] car foot
    by (simp add: exampleCrash_car exampleBlockedWalk_character Vector3_def)
qed


lemma steeringInput_cases: "steeringInput s = 1 \<or> steeringInput s = - 1 \<or> steeringInput s = 0"
  by (simp add: steeringInput_def)

lemma sin_pi_7_pos: "0 < sin (pi / 7)"
  by (rule sin_gt_zero) simp_all

lemma steeringSine_nonzero: "steeringInput s \<noteq> 0 \<Longrightarrow> steeringSine (steeringInput s) \<noteq> 0"
  using steeringInput_cases [of s] sin_pi_7_pos
  by (auto simp: steeringSine_def carMaxSteeringAngleRad_def)

text \<open>
  C7: the tick turns the car only when the speed (after the clamp) and the steering input
  (as read from the keys) are both nonzero; otherwise the heading stays.  When it turns,
  the sine it divides by and the turn radius are nonzero, and the heading advances by
  \<open>speed / turnRadius * deltaTime\<close>.
\<close>

theorem turning_well_defined:
  "(\<not> (integrateSpeed (accelerationInput s) dt (carSpeed s) \<noteq> 0 \<and> steeringInput s \<noteq> 0) \<longrightarrow>
      rotationY (heap (updateCarMovement dt s) (carModel s)) = rotationY (heap s (carModel s)))
   \<and> (integrateSpeed (accelerationInput s) dt (carSpeed s) \<noteq> 0 \<and> steeringInput s \<noteq> 0 \<longrightarrow>
      sin (steeringInput s * carMaxSteeringAngleRad) \<noteq> 0
      \<and> turnRadius (steeringInput s) \<noteq> 0
      \<and> rotationY (heap (updateCarMovement dt s) (carModel s))
         = rotationY (heap s (carModel s))
           + integrateSpeed (accelerationInput s) dt (carSpeed s)
             / (carWheelBase / sin (steeringInput s * carMaxSteeringAngleRad)) * dt)"
  using steeringSine_nonzero [of s]
  by (simp add: updateCarMovement_def Let_def carHeading_def turns_def turnRadius_def
      steeringSine_def carWheelBase_def)

theorem turning_well_defined_witness:
  "integrateSpeed (accelerationInput exampleTurning) (1 / 2) (carSpeed exampleTurning) = 6
   \<and> steeringInput exampleTurning = 1
   \<and> sin (steeringInput exampleTurning * carMaxSteeringAngleRad) \<noteq> 0
   \<and> turnRadius (steeringInput exampleTurning) \<noteq> 0
   \<and> rotationY (heap (updateCarMovement (1 / 2) exampleTurning) (carModel exampleTurning))
      = 0 + 6 / (carWheelBase / sin (1 * carMaxSteeringAngleRad)) * (1 / 2)
   \<and> integrateSpeed (accelerationInput exampleDriving) (1 / 2) (carSpeed exampleDriving) = 0
   \<and> rotationY (heap (updateCarMovement (1 / 2) exampleDriving) (carModel exampleDriving)) = 0"
proof -
  have turning: "integrateSpeed 1 (1 / 2) 0 = 6" and idle: "integrateSpeed 0 (1 / 2) 0 = 0"
    by (simp_all add: integrateSpeed_def constant_defs)
  show ?thesis
    using turning_well_defined [of exampleTurning "1 / 2"]
      turning_well_defined [of exampleDriving "1 / 2"]
    by (simp add: exampleTurning_car exampleDriving_car turning idle)
qed

section \<open>The car stays on the ground\<close>

text \<open>\<^verbatim>\<open>createCar\<close> puts the car at height 0 and every tick of vehicle mode sets its height
  to 0 again; the wrap moves no object vertically, and no other function writes the
  position of the car.\<close>

lemma translateObject_height:
  "vy (position (translateObject dx dz a h r)) = vy (position (h r))"
  by (simp add: translateObject_def translateVector_def)

lemma fold_translate_height:
  "vy (position (fold (translateObject dx dz) rs h r)) = vy (position (h r))"
  by (induction rs arbitrary: h) (simp_all add: translateObject_height)

lemma wrapSceneChild_height:
  "vy (position (wrapSceneChild s dx dz a h r)) = vy (position (h r))"
  by (simp add: wrapSceneChild_def translateObject_height)

lemma fold_scene_height:
  "vy (position (fold (wrapSceneChild s dx dz) rs h r)) = vy (position (h r))"
  by (induction rs arbitrary: h) (simp_all add: wrapSceneChild_height)

lemma wrapWorld_height: "vy (position (heap (wrapWorld s) r)) = vy (position (heap s r))"
  by (simp add: wrapWorld_def Let_def fold_scene_height fold_translate_height
      translateObject_height)

lemma wrapWorld_refs:
  "character (wrapWorld s) = character s" "carModel (wrapWorld s) = carModel s"
  by (simp_all add: wrapWorld_def Let_def)

lemma updateCarMovement_grounded:
  "vy (position (heap (updateCarMovement dt s) (carModel (updateCarMovement dt s)))) = 0"
  by (simp add: updateCarMovement_def Let_def)

lemma enterOrExitCar_car:
  "character s \<noteq> carModel s \<Longrightarrow>
     heap (enterOrExitCar s) (carModel s) = heap s (carModel s)
     \<and> carModel (enterOrExitCar s) = carModel s \<and> character (enterOrExitCar s) = character s"
  by (simp add: enterOrExitCar_def Let_def)

lemma updateCharacterMovement_car:
  "character s \<noteq> carModel s \<Longrightarrow>
     heap (updateCharacterMovement dt s) (carModel s) = heap s (carModel s)
     \<and> carModel (updateCharacterMovement dt s) = carModel s
     \<and> character (updateCharacterMovement dt s) = character s"
  by (simp add: updateCharacterMovement_def characterMove_def characterJump_def
      setCharacterY_def Let_def)

lemma updateDayNightCycle_height:
  "r \<noteq> sunMoonLight s \<Longrightarrow>
     position (heap (updateDayNightCycle dt s) r) = position (heap s r)"
proof -
  have ease: "position (fold (easeStreetLight target dt) lights h r) = position (h r)"
    for target lights h
    by (induction lights arbitrary: h) (simp_all add: easeStreetLight_def)
  assume "r \<noteq> sunMoonLight s"
  then show ?thesis
    by (simp add: updateDayNightCycle_def Let_def ease)
qed

lemma exampleWorld_grounded:
  "vy (position (heap exampleWorld (carModel exampleWorld))) = 0"
  by (simp add: exampleWorld_def exampleHeap_def blankObject_def Vector3_def)

lemma refs_updateDayNightCycle:
  "character (updateDayNightCycle dt s) = character s"
  "carModel (updateDayNightCycle dt s) = carModel s"
  "sunMoonLight (updateDayNightCycle dt s) = sunMoonLight s"
  by (simp_all add: updateDayNightCycle_def Let_def)

lemma refs_updateCarMovement:
  "character (updateCarMovement dt s) = character s"
  "carModel (updateCarMovement dt s) = carModel s"
  "sunMoonLight (updateCarMovement dt s) = sunMoonLight s"
  by (simp_all add: updateCarMovement_def Let_def)

lemma refs_updateCharacterMovement:
  "character (updateCharacterMovement dt s) = character s"
  "carModel (updateCharacterMovement dt s) = carModel s"
  "sunMoonLight (updateCharacterMovement dt s) = sunMoonLight s"
  by (simp_all add: updateCharacterMovement_def characterMove_def characterJump_def
      setCharacterY_def Let_def)

lemma refs_wrapWorld:
  "character (wrapWorld s) = character s"
  "carModel (wrapWorld s) = carModel s"
  "sunMoonLight (wrapWorld s) = sunMoonLight s"
  by (simp_all add: wrapWorld_def Let_def)

lemma refs_enterOrExitCar:
  "character (enterOrExitCar s) = character s"
  "carModel (enterOrExitCar s) = carModel s"
  "sunMoonLight (enterOrExitCar s) = sunMoonLight s"
  by (simp_all add: enterOrExitCar_def Let_def)

lemma carOnGround_updateDayNightCycle:
  "carOnGround s \<Longrightarrow> carOnGround (updateDayNightCycle dt s)"
  using updateDayNightCycle_height [of "carModel s" s dt]
  by (auto simp: carOnGround_def refs_updateDayNightCycle)

lemma carOnGround_updateCarMovement:
  "carOnGround s \<Longrightarrow> carOnGround (updateCarMovement dt s)"
  using updateCarMovement_grounded [of dt s]
  by (simp add: carOnGround_def refs_updateCarMovement)

lemma carOnGround_updateCharacterMovement:
  "carOnGround s \<Longrightarrow> carOnGround (updateCharacterMovement dt s)"
  using updateCharacterMovement_car [of s dt]
  by (simp add: carOnGround_def refs_updateCharacterMovement)

lemma carOnGround_wrapWorld: "carOnGround s \<Longrightarrow> carOnGround (wrapWorld s)"
  by (simp add: carOnGround_def refs_wrapWorld wrapWorld_height)

lemma carOnGround_enterOrExitCar: "carOnGround s \<Longrightarrow> carOnGround (enterOrExitCar s)"
  using enterOrExitCar_car [of s]
  by (simp add: carOnGround_def refs_enterOrExitCar)

lemma carOnGround_applyEvent: "carOnGround s \<Longrightarrow> carOnGround (applyEvent e s)"
proof (cases e)
  case (Frame dt)
  assume "carOnGround s"
  then show ?thesis
    unfolding Frame
    by (simp add: updateGameLogic_def Let_def carOnGround_wrapWorld
        carOnGround_updateCarMovement carOnGround_updateCharacterMovement
        carOnGround_updateDayNightCycle)
next
  case (Keys keys)
  assume "carOnGround s"
  then show ?thesis unfolding Keys by (simp add: carOnGround_def)
next
  case Jump
  assume "carOnGround s"
  then show ?thesis unfolding Jump by (simp add: carOnGround_def)
next
  case Toggle
  assume "carOnGround s"
  then show ?thesis unfolding Toggle by (simp add: carOnGround_enterOrExitCar)
qed

lemma carOnGround_runEvents: "carOnGround s \<Longrightarrow> carOnGround (runEvents events s)"
  unfolding runEvents_def
  by (induction events arbitrary: s) (simp_all add: carOnGround_applyEvent)

lemma carOnGround_exampleWorld: "carOnGround exampleWorld"
  by (simp add: carOnGround_def exampleWorld_def exampleHeap_def blankObject_def Vector3_def)

section \<open>Entering and leaving the car\<close>

lemma exit_offset:
  "applyQuaternion \<lparr>vx = a, vy = 0, vz = 0\<rparr> (quaternionOfYaw \<theta>)
     = \<lparr>vx = a * (cos (\<theta> / 2) * cos (\<theta> / 2) - sin (\<theta> / 2) * sin (\<theta> / 2)), vy = 0,
        vz = - (2 * a * sin (\<theta> / 2) * cos (\<theta> / 2))\<rparr>"
  by (simp add: applyQuaternion_def quaternionOfYaw_def Let_def algebra_simps)

lemma rotation_square:
  fixes a c s :: real
  shows "(a * (c * c - s * s)) * (a * (c * c - s * s)) + (2 * a * s * c) * (2 * a * s * c)
         = a * a * ((c\<^sup>2 + s\<^sup>2) * (c\<^sup>2 + s\<^sup>2))"
  by (simp add: power2_eq_square algebra_simps)

lemma exit_offset_length:
  fixes a t :: real
  shows "(a * (cos t * cos t - sin t * sin t)) * (a * (cos t * cos t - sin t * sin t))
         + (2 * a * sin t * cos t) * (2 * a * sin t * cos t) = a * a"
  by (simp only: rotation_square cos_squared_eq) simp

lemma enterOrExitCar_exit:
  "isInCar s \<Longrightarrow>
     enterOrExitCar s =
       s\<lparr>isInCar := False,
         heap := (heap s)(character s :=
            (heap s (character s))\<lparr>visible := True,
               position := (v_add (position (heap s (carModel s)))
                  (applyQuaternion (Vector3 1.5 0 0)
                     (quaternionOfYaw (rotationY (heap s (carModel s))))))\<lparr>vy := characterFeetY\<rparr>\<rparr>),
         cameraTarget := character s,
         cameraTargetOffset := Vector3 0 (characterHeight * 0.8) 0,
         carSpeed := 0\<rparr>"
  by (simp add: enterOrExitCar_def Let_def)

lemma enterOrExitCar_enter:
  "\<not> isInCar s \<Longrightarrow>
     distanceTo (position (heap s (character s))) (position (heap s (carModel s))) < enterCarDistance \<Longrightarrow>
     enterOrExitCar s =
       s\<lparr>isInCar := True,
         heap := (heap s)(character s := (heap s (character s))\<lparr>visible := False\<rparr>),
         cameraTarget := carModel s,
         cameraTargetOffset := Vector3 0 1.5 0,
         carSpeed := 0,
         carSteeringInput := 0\<rparr>"
  by (simp add: enterOrExitCar_def Let_def)

lemma distance_after_exit:
  assumes "isInCar s" and "character s \<noteq> carModel s"
    and "vy (position (heap s (carModel s))) = 0"
  shows "distanceTo (position (heap (enterOrExitCar s) (character s)))
           (position (heap (enterOrExitCar s) (carModel s))) = 1.5"
proof -
  let ?t = "rotationY (heap s (carModel s)) / 2"
  have "distanceTo (position (heap (enterOrExitCar s) (character s)))
           (position (heap (enterOrExitCar s) (carModel s)))
        = sqrt ((1.5 * (cos ?t * cos ?t - sin ?t * sin ?t)) * (1.5 * (cos ?t * cos ?t - sin ?t * sin ?t))
                + (2 * 1.5 * sin ?t * cos ?t) * (2 * 1.5 * sin ?t * cos ?t))"
    using assms
    by (simp add: enterOrExitCar_exit exit_offset distanceTo_def v_add_def Vector3_def
        characterFeetY_def)
  also have "\<dots> = sqrt (1.5 * 1.5)"
    by (simp only: exit_offset_length)
  also have "\<dots> = 1.5"
    by (rule real_sqrt_unique) (simp_all add: power2_eq_square)
  finally show ?thesis .
qed

text \<open>The exit offset \<open>(a, 0, 0)\<close> and the forward vector \<open>(0, 0, 1)\<close>, turned by the
  orientation of a car with heading \<open>\<theta>\<close>.\<close>

lemma exit_offset_yaw:
  "applyQuaternion \<lparr>vx = a, vy = 0, vz = 0\<rparr> (quaternionOfYaw \<theta>)
     = \<lparr>vx = a * cos \<theta>, vy = 0, vz = - (a * sin \<theta>)\<rparr>"
proof -
  have c: "cos \<theta> = cos (\<theta> / 2) * cos (\<theta> / 2) - sin (\<theta> / 2) * sin (\<theta> / 2)"
    using cos_double [of "\<theta> / 2"] by (simp add: power2_eq_square)
  have s: "sin \<theta> = 2 * sin (\<theta> / 2) * cos (\<theta> / 2)"
    using sin_double [of "\<theta> / 2"] by simp
  show ?thesis
    unfolding exit_offset by (simp add: c s)
qed

lemma forward_vector:
  "applyQuaternion \<lparr>vx = 0, vy = 0, vz = 1\<rparr> (quaternionOfYaw \<theta>)
     = \<lparr>vx = sin \<theta>, vy = 0, vz = cos \<theta>\<rparr>"
proof -
  have c: "cos \<theta> = cos (\<theta> / 2) * cos (\<theta> / 2) - sin (\<theta> / 2) * sin (\<theta> / 2)"
    using cos_double [of "\<theta> / 2"] by (simp add: power2_eq_square)
  have s: "sin \<theta> = 2 * sin (\<theta> / 2) * cos (\<theta> / 2)"
    using sin_double [of "\<theta> / 2"] by simp
  show ?thesis
    by (simp add: applyQuaternion_def quaternionOfYaw_def Let_def c s algebra_simps)
qed

text \<open>
  C9: on foot and closer to the car than \<open>enterCarDistance\<close>, the toggle enters the car
  and zeroes its speed; the next toggle leaves the car, zeroes its speed again, shows the
  character and puts it at ground height beside the car: at the car's position plus
  \<open>(1.5 * cos yaw, 0, -1.5 * sin yaw)\<close>, where \<open>yaw\<close> is the heading of the car.  The
  car itself is as before, its forward vector is \<open>(sin yaw, 0, cos yaw)\<close>, and the
  offset of the character is at a right angle to it.
\<close>

theorem toggle_round_trip:
  assumes "\<not> isInCar s" and "character s \<noteq> carModel s"
    and "distanceTo (position (heap s (character s))) (position (heap s (carModel s)))
           < enterCarDistance"
  shows "isInCar (enterOrExitCar s)
         \<and> carSpeed (enterOrExitCar s) = 0
         \<and> \<not> isInCar (enterOrExitCar (enterOrExitCar s))
         \<and> carSpeed (enterOrExitCar (enterOrExitCar s)) = 0
         \<and> visible (heap (enterOrExitCar (enterOrExitCar s)) (character s))
         \<and> position (heap (enterOrExitCar (enterOrExitCar s)) (character s))
            = \<lparr>vx = vx (position (heap s (carModel s)))
                      + 1.5 * cos (rotationY (heap s (carModel s))),
               vy = characterFeetY,
               vz = vz (position (heap s (carModel s)))
                      - 1.5 * sin (rotationY (heap s (carModel s)))\<rparr>
         \<and> heap (enterOrExitCar (enterOrExitCar s)) (carModel s) = heap s (carModel s)
         \<and> applyQuaternion (Vector3 0 0 1) (quaternionOfYaw (rotationY (heap s (carModel s))))
            = \<lparr>vx = sin (rotationY (heap s (carModel s))), vy = 0,
               vz = cos (rotationY (heap s (carModel s)))\<rparr>
         \<and> (vx (position (heap (enterOrExitCar (enterOrExitCar s)) (character s)))
               - vx (position (heap s (carModel s)))) * sin (rotationY (heap s (carModel s)))
            + (vz (position (heap (enterOrExitCar (enterOrExitCar s)) (character s)))
               - vz (position (heap s (carModel s)))) * cos (rotationY (heap s (carModel s)))
            = 0
         \<and> character (enterOrExitCar (enterOrExitCar s)) = character s
         \<and> carModel (enterOrExitCar (enterOrExitCar s)) = carModel s"
proof -
  let ?s1 = "enterOrExitCar s"
  have s1: "?s1 = s\<lparr>isInCar := True,
         heap := (heap s)(character s := (heap s (character s))\<lparr>visible := False\<rparr>),
         cameraTarget := carModel s,
         cameraTargetOffset := Vector3 0 1.5 0,
         carSpeed := 0,
         carSteeringInput := 0\<rparr>"
    using assms(1,3) by (rule enterOrExitCar_enter)
  have in1: "isInCar ?s1" by (simp add: s1)
  show ?thesis
    unfolding enterOrExitCar_exit [OF in1]
    using assms(2)
    by (simp add: s1 Vector3_def exit_offset_yaw forward_vector v_add_def)
qed

theorem toggle_round_trip_witness:
  "\<not> isInCar exampleTurnedCar
   \<and> character exampleTurnedCar \<noteq> carModel exampleTurnedCar
   \<and> distanceTo (position (heap exampleTurnedCar (character exampleTurnedCar)))
        (position (heap exampleTurnedCar (carModel exampleTurnedCar))) = 1
   \<and> 1 < enterCarDistance
   \<and> position (heap exampleTurnedCar (carModel exampleTurnedCar)) = Vector3 0 0 2
   \<and> rotationY (heap exampleTurnedCar (carModel exampleTurnedCar)) = pi / 2
   \<and> isInCar (enterOrExitCar exampleTurnedCar)
   \<and> carSpeed (enterOrExitCar exampleTurnedCar) = 0
   \<and> \<not> isInCar (enterOrExitCar (enterOrExitCar exampleTurnedCar))
   \<and> carSpeed (enterOrExitCar (enterOrExitCar exampleTurnedCar)) = 0
   \<and> visible (heap (enterOrExitCar (enterOrExitCar exampleTurnedCar)) (character exampleTurnedCar))
   \<and> position (heap (enterOrExitCar (enterOrExitCar exampleTurnedCar)) (character exampleTurnedCar))
      = Vector3 0 0 (1 / 2)
   \<and> position (heap (enterOrExitCar (enterOrExitCar exampleTurnedCar)) (carModel exampleTurnedCar))
      = Vector3 0 0 2
   \<and> applyQuaternion (Vector3 0 0 1)
        (quaternionOfYaw (rotationY (heap exampleTurnedCar (carModel exampleTurnedCar))))
      = Vector3 1 0 0"
proof -
  have d: "distanceTo (position (heap exampleTurnedCar (character exampleTurnedCar)))
        (position (heap exampleTurnedCar (carModel exampleTurnedCar))) = 1"
    by (simp add: exampleTurnedCar_fields distanceTo_def Vector3_def)
  have near: "distanceTo (position (heap exampleTurnedCar (character exampleTurnedCar)))
        (position (heap exampleTurnedCar (carModel exampleTurnedCar))) < enterCarDistance"
    by (simp add: d enterCarDistance_def)
  have ne: "character exampleTurnedCar \<noteq> carModel exampleTurnedCar"
    and foot: "\<not> isInCar exampleTurnedCar"
    by (simp_all add: exampleTurnedCar_fields)
  show ?thesis
    using toggle_round_trip [OF foot ne near] d
    by (simp add: exampleTurnedCar_fields enterCarDistance_def characterFeetY_def Vector3_def)
qed

lemma exit_places_character:
  assumes "isInCar s" and "character s \<noteq> carModel s"
    and "vy (position (heap s (carModel s))) = 0"
  shows "distanceTo (position (heap (enterOrExitCar s) (character (enterOrExitCar s))))
           (position (heap (enterOrExitCar s) (carModel (enterOrExitCar s)))) = 1.5
         \<and> vy (position (heap (enterOrExitCar s) (character (enterOrExitCar s))))
           = vy (position (heap (enterOrExitCar s) (carModel (enterOrExitCar s))))
         \<and> 1.5 < enterCarDistance
         \<and> \<not> isInCar (enterOrExitCar s)
         \<and> isInCar (enterOrExitCar (enterOrExitCar s))"
proof -
  have d: "distanceTo (position (heap (enterOrExitCar s) (character s)))
           (position (heap (enterOrExitCar s) (carModel s))) = 1.5"
    using assms by (rule distance_after_exit)
  have c: "character (enterOrExitCar s) = character s" "carModel (enterOrExitCar s) = carModel s"
    "\<not> isInCar (enterOrExitCar s)"
    using assms(1) by (simp_all add: enterOrExitCar_exit)
  have h: "vy (position (heap (enterOrExitCar s) (character s)))
           = vy (position (heap (enterOrExitCar s) (carModel s)))"
    using assms by (simp add: enterOrExitCar_exit characterFeetY_def)
  have "isInCar (enterOrExitCar (enterOrExitCar s))"
    using c d by (subst enterOrExitCar_enter) (simp_all add: enterCarDistance_def)
  then show ?thesis using c d h by (simp add: enterCarDistance_def)
qed

text \<open>
  C10: in every state that frames and input events reach from a world whose car stands on
  the ground, leaving the car puts the character at distance exactly 1.5 from the car and
  at the car's height; 1.5 is less than \<open>enterCarDistance\<close>, and the next toggle enters
  the car again.
\<close>

theorem exit_then_reenter:
  assumes "carOnGround s0" and "s = runEvents events s0" and "isInCar s"
  shows "distanceTo (position (heap (enterOrExitCar s) (character (enterOrExitCar s))))
           (position (heap (enterOrExitCar s) (carModel (enterOrExitCar s)))) = 1.5
         \<and> vy (position (heap (enterOrExitCar s) (character (enterOrExitCar s))))
           = vy (position (heap (enterOrExitCar s) (carModel (enterOrExitCar s))))
         \<and> 1.5 < enterCarDistance
         \<and> \<not> isInCar (enterOrExitCar s)
         \<and> isInCar (enterOrExitCar (enterOrExitCar s))"
proof -
  have "carOnGround s"
    unfolding assms(2) using assms(1) by (rule carOnGround_runEvents)
  then have "character s \<noteq> carModel s" and "vy (position (heap s (carModel s))) = 0"
    by (simp_all add: carOnGround_def)
  with assms(3) show ?thesis by (rule exit_places_character)
qed

theorem exit_then_reenter_witness:
  "carOnGround exampleNearCar
   \<and> isInCar (runEvents [Toggle] exampleNearCar)
   \<and> position (heap (enterOrExitCar (runEvents [Toggle] exampleNearCar)) 4) = Vector3 1.5 0 2
   \<and> position (heap (enterOrExitCar (runEvents [Toggle] exampleNearCar)) 5) = Vector3 0 0 2
   \<and> distanceTo (position (heap (enterOrExitCar (runEvents [Toggle] exampleNearCar)) 4))
        (position (heap (enterOrExitCar (runEvents [Toggle] exampleNearCar)) 5)) = 1.5
   \<and> \<not> isInCar (enterOrExitCar (runEvents [Toggle] exampleNearCar))
   \<and> isInCar (enterOrExitCar (enterOrExitCar (runEvents [Toggle] exampleNearCar)))"
proof -
  have ground: "carOnGround exampleNearCar"
    by (simp add: carOnGround_def exampleNearCar_fields exampleNearCar_def exampleWorld_def
        exampleHeap_def blankObject_def Vector3_def)
  have near: "distanceTo (position (heap exampleNearCar (character exampleNearCar)))
        (position (heap exampleNearCar (carModel exampleNearCar))) < enterCarDistance"
    by (simp add: exampleNearCar_fields distanceTo_def Vector3_def enterCarDistance_def)
  have foot: "\<not> isInCar exampleNearCar"
    by (simp add: exampleNearCar_fields)
  have entered: "runEvents [Toggle] exampleNearCar = enterOrExitCar exampleNearCar"
    by (simp add: runEvents_def)
  have inCar: "isInCar (enterOrExitCar exampleNearCar)"
    using near by (simp add: enterOrExitCar_enter exampleNearCar_fields)
  have p: "position (heap (enterOrExitCar (enterOrExitCar exampleNearCar)) 4) = Vector3 1.5 0 2"
    "position (heap (enterOrExitCar (enterOrExitCar exampleNearCar)) 5) = Vector3 0 0 2"
    "character (enterOrExitCar (enterOrExitCar exampleNearCar)) = 4"
    "carModel (enterOrExitCar (enterOrExitCar exampleNearCar)) = 5"
    unfolding enterOrExitCar_exit [OF inCar]
    by (simp_all add: enterOrExitCar_enter [OF foot near] exampleNearCar_fields
        characterFeetY_def vector_defs Let_def)
  show ?thesis
    using exit_then_reenter [OF ground entered [symmetric]] inCar
    by (simp add: ground entered p)
qed

section \<open>Wrapping the world\<close>

lemma translateObject_other: "r' \<noteq> r \<Longrightarrow> translateObject dx dz r h r' = h r'"
  by (simp add: translateObject_def)

lemma translateObject_position:
  "position (translateObject dx dz r h r)
     = translateVector dx dz (position (h r))"
  by (simp add: translateObject_def)

lemma translateObject_shape:
  "isGroup (translateObject dx dz r h r') = isGroup (h r')"
  "isPointLight (translateObject dx dz r h r') = isPointLight (h r')"
  "children (translateObject dx dz r h r') = children (h r')"
  by (simp_all add: translateObject_def)

lemma fold_translate_notin:
  "r \<notin> set rs \<Longrightarrow> fold (translateObject dx dz) rs h r = h r"
  by (induction rs arbitrary: h) (auto simp: translateObject_other)

lemma fold_translate_in:
  "distinct rs \<Longrightarrow> r \<in> set rs \<Longrightarrow>
     position (fold (translateObject dx dz) rs h r)
       = translateVector dx dz (position (h r))"
proof (induction rs arbitrary: h)
  case Nil
  then show ?case by simp
next
  case (Cons a rs)
  show ?case
  proof (cases "r = a")
    case True
    then have "r \<notin> set rs" using Cons.prems by simp
    then show ?thesis using True
      by (simp add: fold_translate_notin translateObject_position)
  next
    case False
    then show ?thesis using Cons by (simp add: translateObject_other)
  qed
qed

lemma wrapSkips_shape:
  assumes "\<And>r. isGroup (h' r) = isGroup (h r)"
    and "\<And>r. isPointLight (h' r) = isPointLight (h r)"
    and "\<And>r. children (h' r) = children (h r)"
  shows "wrapSkips s h' obj = wrapSkips s h obj"
  by (simp add: wrapSkips_def isStreetLanternGroup_def assms)

lemma wrapSkips_translateObject:
  "wrapSkips s (translateObject dx dz r h) obj = wrapSkips s h obj"
  by (rule wrapSkips_shape) (simp_all add: translateObject_shape)

lemma wrapSkips_fold_translate:
  "wrapSkips s (fold (translateObject dx dz) rs h) obj = wrapSkips s h obj"
  by (induction rs arbitrary: h) (simp_all add: wrapSkips_translateObject)

lemma wrapSceneChild_skips:
  "wrapSkips s (wrapSceneChild s dx dz a h) obj = wrapSkips s h obj"
  by (simp add: wrapSceneChild_def wrapSkips_translateObject)

lemma wrapSceneChild_other: "r \<noteq> a \<Longrightarrow> wrapSceneChild s dx dz a h r = h r"
  by (simp add: wrapSceneChild_def translateObject_other)

lemma fold_scene_notin:
  "r \<notin> set rs \<Longrightarrow> fold (wrapSceneChild s dx dz) rs h r = h r"
  by (induction rs arbitrary: h) (simp_all add: wrapSceneChild_other)

lemma fold_scene_skipped:
  "wrapSkips s h r \<Longrightarrow> fold (wrapSceneChild s dx dz) rs h r = h r"
proof (induction rs arbitrary: h)
  case Nil
  then show ?case by simp
next
  case (Cons a rs)
  have "wrapSkips s (wrapSceneChild s dx dz a h) r"
    using Cons.prems by (simp add: wrapSceneChild_skips)
  then have "fold (wrapSceneChild s dx dz) rs (wrapSceneChild s dx dz a h) r
             = wrapSceneChild s dx dz a h r"
    by (rule Cons.IH)
  moreover have "wrapSceneChild s dx dz a h r = h r"
    using Cons.prems by (cases "r = a") (simp_all add: wrapSceneChild_def translateObject_other)
  ultimately show ?case by simp
qed

lemma fold_scene_in:
  "distinct rs \<Longrightarrow> r \<in> set rs \<Longrightarrow> \<not> wrapSkips s h r \<Longrightarrow>
     position (fold (wrapSceneChild s dx dz) rs h r)
       = translateVector dx dz (position (h r))"
proof (induction rs arbitrary: h)
  case Nil
  then show ?case by simp
next
  case (Cons a rs)
  show ?case
  proof (cases "r = a")
    case True
    then have "r \<notin> set rs" using Cons.prems by simp
    then have "fold (wrapSceneChild s dx dz) rs (wrapSceneChild s dx dz a h) r
               = wrapSceneChild s dx dz a h r"
      by (rule fold_scene_notin)
    moreover have "wrapSceneChild s dx dz a h = translateObject dx dz a h"
      using True Cons.prems(3) by (simp add: wrapSceneChild_def)
    ultimately show ?thesis using True
      by (simp add: translateObject_position)
  next
    case False
    have "\<not> wrapSkips s (wrapSceneChild s dx dz a h) r"
      using Cons.prems(3) by (simp add: wrapSceneChild_skips)
    moreover have "wrapSceneChild s dx dz a h r = h r"
      using False by (simp add: wrapSceneChild_def translateObject_other)
    ultimately show ?thesis using Cons False by simp
  qed
qed


lemma wrapSkips_agents:
  "wrapSkips s h (character s)" "wrapSkips s h (carModel s)"
  "c \<in> set (coins s) \<Longrightarrow> wrapSkips s h c"
  by (simp_all add: wrapSkips_def)

lemma not_wrapSkips_D:
  "\<not> wrapSkips s h r \<Longrightarrow> r \<noteq> character s \<and> r \<noteq> carModel s \<and> r \<notin> set (coins s)"
  by (auto simp: wrapSkips_def)

lemma wrapWorld_fires:
  assumes "wrapOffsetX s \<noteq> 0 \<or> wrapOffsetZ s \<noteq> 0"
  shows "heap (wrapWorld s) =
           fold (wrapSceneChild s (wrapOffsetX s) (wrapOffsetZ s)) (sceneChildren s)
             (fold (translateObject (wrapOffsetX s) (wrapOffsetZ s)) (coins s)
                (translateObject (wrapOffsetX s) (wrapOffsetZ s) (carModel s)
                   (translateObject (wrapOffsetX s) (wrapOffsetZ s) (character s) (heap s))))"
    and "buildingColliders (wrapWorld s)
           = translateColliders (wrapOffsetX s) (wrapOffsetZ s) (buildingColliders s)"
  using assms by (auto simp: wrapWorld_def Let_def)

lemma wrapWorld_idle:
  "wrapOffsetX s = 0 \<Longrightarrow> wrapOffsetZ s = 0 \<Longrightarrow> wrapWorld s = s"
  by (simp add: wrapWorld_def)

lemma wrapWorld_character:
  assumes "distinctObjects s" and "wrapOffsetX s \<noteq> 0 \<or> wrapOffsetZ s \<noteq> 0"
  shows "position (heap (wrapWorld s) (character s))
           = translateVector (wrapOffsetX s) (wrapOffsetZ s) (position (heap s (character s)))"
  using assms(1)
  by (simp add: wrapWorld_fires(1) [OF assms(2)] fold_scene_skipped wrapSkips_agents
      fold_translate_notin translateObject_other translateObject_position distinctObjects_def)

lemma wrapWorld_carModel:
  assumes "distinctObjects s" and "wrapOffsetX s \<noteq> 0 \<or> wrapOffsetZ s \<noteq> 0"
  shows "position (heap (wrapWorld s) (carModel s))
           = translateVector (wrapOffsetX s) (wrapOffsetZ s) (position (heap s (carModel s)))"
  using assms(1)
  by (simp add: wrapWorld_fires(1) [OF assms(2)] fold_scene_skipped wrapSkips_agents
      fold_translate_notin translateObject_other translateObject_position distinctObjects_def)

lemma wrapWorld_coin:
  assumes "distinctObjects s" and "wrapOffsetX s \<noteq> 0 \<or> wrapOffsetZ s \<noteq> 0"
    and "c \<in> set (coins s)"
  shows "position (heap (wrapWorld s) c)
           = translateVector (wrapOffsetX s) (wrapOffsetZ s) (position (heap s c))"
proof -
  have ne: "c \<noteq> character s" "c \<noteq> carModel s" and d: "distinct (coins s)"
    using assms(1,3) by (auto simp: distinctObjects_def)
  show ?thesis
    using ne d assms(3)
    by (simp add: wrapWorld_fires(1) [OF assms(2)] fold_scene_skipped wrapSkips_agents
        fold_translate_in translateObject_other)
qed

lemma wrapWorld_sceneChild:
  assumes "distinctObjects s" and "wrapOffsetX s \<noteq> 0 \<or> wrapOffsetZ s \<noteq> 0"
    and "r \<in> set (sceneChildren s)" and "\<not> wrapSkips s (heap s) r"
  shows "position (heap (wrapWorld s) r)
           = translateVector (wrapOffsetX s) (wrapOffsetZ s) (position (heap s r))"
proof -
  let ?h3 = "fold (translateObject (wrapOffsetX s) (wrapOffsetZ s)) (coins s)
                (translateObject (wrapOffsetX s) (wrapOffsetZ s) (carModel s)
                   (translateObject (wrapOffsetX s) (wrapOffsetZ s) (character s) (heap s)))"
  have ne: "r \<noteq> character s" "r \<noteq> carModel s" "r \<notin> set (coins s)"
    using not_wrapSkips_D [OF assms(4)] by simp_all
  have h3: "?h3 r = heap s r"
    using ne by (simp add: fold_translate_notin translateObject_other)
  have skip: "\<not> wrapSkips s ?h3 r"
    using assms(4) by (simp add: wrapSkips_fold_translate wrapSkips_translateObject)
  have d: "distinct (sceneChildren s)" using assms(1) by (simp add: distinctObjects_def)
  show ?thesis
    unfolding wrapWorld_fires(1) [OF assms(2)]
    using fold_scene_in [OF d assms(3) skip] h3 by simp
qed

lemma wrapWorld_skipped:
  assumes "wrapSkips s (heap s) r" and "r \<noteq> character s" and "r \<noteq> carModel s"
    and "r \<notin> set (coins s)"
  shows "heap (wrapWorld s) r = heap s r"
proof (cases "wrapOffsetX s \<noteq> 0 \<or> wrapOffsetZ s \<noteq> 0")
  case True
  let ?h3 = "fold (translateObject (wrapOffsetX s) (wrapOffsetZ s)) (coins s)
                (translateObject (wrapOffsetX s) (wrapOffsetZ s) (carModel s)
                   (translateObject (wrapOffsetX s) (wrapOffsetZ s) (character s) (heap s)))"
  have h3: "?h3 r = heap s r"
    using assms(2-4) by (simp add: fold_translate_notin translateObject_other)
  have skip: "wrapSkips s ?h3 r"
    using assms(1) by (simp add: wrapSkips_fold_translate wrapSkips_translateObject)
  show ?thesis
    unfolding wrapWorld_fires(1) [OF True]
    using fold_scene_skipped [OF skip] h3 by simp
next
  case False
  then show ?thesis by (simp add: wrapWorld_idle)
qed

lemma wrapWorld_translated:
  assumes "distinctObjects s" and "wrapOffsetX s \<noteq> 0 \<or> wrapOffsetZ s \<noteq> 0"
    and "r \<in> set (wrapTranslated s)"
  shows "position (heap (wrapWorld s) r)
           = translateVector (wrapOffsetX s) (wrapOffsetZ s) (position (heap s r))"
  using assms(3) wrapWorld_character [OF assms(1,2)] wrapWorld_carModel [OF assms(1,2)]
    wrapWorld_coin [OF assms(1,2)] wrapWorld_sceneChild [OF assms(1,2)]
  by (auto simp: wrapTranslated_def)

lemma v_sub_translateVector:
  "v_sub (translateVector dx dz p) (translateVector dx dz q) = v_sub p q"
  by (simp add: v_sub_def translateVector_def)

text \<open>
  C2 (as amended): when the wrap fires in a world of distinct objects, one and the same
  translation \<open>(offsetX, offsetZ)\<close> is applied to the character, the car, every coin,
  every scene child that the guard of line 1097 lets through, and to both corners of
  every collider; between any two of these the relative offset is as before the wrap.
  The guard keeps back the sun/moon light and its target, which \<^verbatim>\<open>updateDayNightCycle\<close>
  positions, and the camera.
\<close>

theorem wrapWorld_rigid:
  assumes "distinctObjects s" and "wrapOffsetX s \<noteq> 0 \<or> wrapOffsetZ s \<noteq> 0"
  shows "(\<forall>r \<in> set (wrapTranslated s).
            position (heap (wrapWorld s) r)
              = translateVector (wrapOffsetX s) (wrapOffsetZ s) (position (heap s r)))
         \<and> buildingColliders (wrapWorld s)
             = map (\<lambda>b. \<lparr>box_min = translateVector (wrapOffsetX s) (wrapOffsetZ s) (box_min b),
                          box_max = translateVector (wrapOffsetX s) (wrapOffsetZ s) (box_max b)\<rparr>)
                   (buildingColliders s)
         \<and> (\<forall>a \<in> set (wrapTranslated s). \<forall>b \<in> set (wrapTranslated s).
               v_sub (position (heap (wrapWorld s) a)) (position (heap (wrapWorld s) b))
                 = v_sub (position (heap s a)) (position (heap s b)))
         \<and> (\<forall>a \<in> set (wrapTranslated s). \<forall>i < length (buildingColliders s).
               v_sub (position (heap (wrapWorld s) a)) (box_min (buildingColliders (wrapWorld s) ! i))
                 = v_sub (position (heap s a)) (box_min (buildingColliders s ! i))
               \<and> v_sub (position (heap (wrapWorld s) a)) (box_max (buildingColliders (wrapWorld s) ! i))
                 = v_sub (position (heap s a)) (box_max (buildingColliders s ! i)))"
proof -
  have moved: "\<And>r. r \<in> set (wrapTranslated s) \<Longrightarrow>
      position (heap (wrapWorld s) r)
        = translateVector (wrapOffsetX s) (wrapOffsetZ s) (position (heap s r))"
    using assms by (rule wrapWorld_translated)
  have boxes: "buildingColliders (wrapWorld s)
      = map (\<lambda>b. \<lparr>box_min = translateVector (wrapOffsetX s) (wrapOffsetZ s) (box_min b),
                   box_max = translateVector (wrapOffsetX s) (wrapOffsetZ s) (box_max b)\<rparr>)
            (buildingColliders s)"
    unfolding wrapWorld_fires(2) [OF assms(2)] translateColliders_def
    by (simp add: translateBox_def)
  show ?thesis
    using moved by (simp add: boxes v_sub_translateVector)
qed

theorem wrapWorld_rigid_witness:
  "distinctObjects exampleWrap
   \<and> wrapOffsetX exampleWrap = - 260 \<and> wrapOffsetZ exampleWrap = 0
   \<and> wrapTranslated exampleWrap = [4, 5, 11, 1, 6, 7, 10]
   \<and> position (heap (wrapWorld exampleWrap) 4) = Vector3 (- 257) 0 2
   \<and> position (heap (wrapWorld exampleWrap) 5) = Vector3 (- 129) 0 2
   \<and> position (heap (wrapWorld exampleWrap) 11) = Vector3 (- 377) 0.15 (- 131)
   \<and> position (heap (wrapWorld exampleWrap) 10) = Vector3 (- 247) 4 13
   \<and> buildingColliders (wrapWorld exampleWrap) = [buildingCollider (- 247) 13 10 8 10]
   \<and> v_sub (position (heap (wrapWorld exampleWrap) 5)) (position (heap (wrapWorld exampleWrap) 10))
      = v_sub (position (heap exampleWrap 5)) (position (heap exampleWrap 10))
   \<and> v_sub (position (heap (wrapWorld exampleWrap) 5))
        (box_min (buildingColliders (wrapWorld exampleWrap) ! 0))
      = v_sub (position (heap exampleWrap 5)) (box_min (buildingColliders exampleWrap ! 0))"
proof -
  have fires: "wrapOffsetX exampleWrap \<noteq> 0 \<or> wrapOffsetZ exampleWrap \<noteq> 0"
    by (simp add: exampleWrap_offsets)
  note rigid = wrapWorld_rigid [OF exampleWrap_distinct fires,
      unfolded exampleWrap_translated exampleWrap_offsets]
  have moved: "r \<in> set [4, 5, 11, 1, 6, 7, 10] \<Longrightarrow>
      position (heap (wrapWorld exampleWrap) r)
        = translateVector (- 260) 0 (position (heap exampleWrap r))" for r
    using rigid by blast
  have boxes: "buildingColliders (wrapWorld exampleWrap) = [buildingCollider (- 247) 13 10 8 10]"
    using rigid
    by (simp add: exampleWrap_fields buildingCollider_def translateVector_def Vector3_def)
  have rel: "a \<in> set [4, 5, 11, 1, 6, 7, 10] \<Longrightarrow> b \<in> set [4, 5, 11, 1, 6, 7, 10] \<Longrightarrow>
      v_sub (position (heap (wrapWorld exampleWrap) a)) (position (heap (wrapWorld exampleWrap) b))
        = v_sub (position (heap exampleWrap a)) (position (heap exampleWrap b))" for a b
    using rigid by blast
  have cor: "a \<in> set [4, 5, 11, 1, 6, 7, 10] \<Longrightarrow> i < length (buildingColliders exampleWrap) \<Longrightarrow>
      v_sub (position (heap (wrapWorld exampleWrap) a))
          (box_min (buildingColliders (wrapWorld exampleWrap) ! i))
        = v_sub (position (heap exampleWrap a)) (box_min (buildingColliders exampleWrap ! i))"
    for a i
    using rigid by blast
  have offsets: "v_sub (position (heap (wrapWorld exampleWrap) 5))
                   (position (heap (wrapWorld exampleWrap) 10))
      = v_sub (position (heap exampleWrap 5)) (position (heap exampleWrap 10))"
    by (rule rel) simp_all
  have corner: "v_sub (position (heap (wrapWorld exampleWrap) 5))
        (box_min (buildingColliders (wrapWorld exampleWrap) ! 0))
      = v_sub (position (heap exampleWrap 5)) (box_min (buildingColliders exampleWrap ! 0))"
    by (rule cor) (simp_all add: exampleWrap_fields)
  show ?thesis
    using moved [of 4] moved [of 5] moved [of 11] moved [of 10] offsets corner
    by (simp add: exampleWrap_distinct exampleWrap_offsets exampleWrap_translated boxes
        exampleWrap_positions exampleWrap_fields translateVector_def Vector3_def v_sub_def
        buildingCollider_def)
qed

text \<open>
  C2 as stated fails: with the car one unit past the eastern bound, the wrap moves the car
  by \<open>-260\<close> and leaves the sun/moon light, a child of the scene, where it was; the
  street lantern of the scene stays as well.
\<close>

theorem wrapWorld_skips_lights_counterexample:
  "wrapOffsetX exampleWrap = - 260
   \<and> position (heap exampleWrap (carModel exampleWrap)) = Vector3 131 0 2
   \<and> position (heap (wrapWorld exampleWrap) (carModel exampleWrap)) = Vector3 (- 129) 0 2
   \<and> sunMoonLight exampleWrap \<in> set (sceneChildren exampleWrap)
   \<and> position (heap exampleWrap (sunMoonLight exampleWrap)) = Vector3 30 50 20
   \<and> position (heap (wrapWorld exampleWrap) (sunMoonLight exampleWrap)) = Vector3 30 50 20
   \<and> 8 \<in> set (sceneChildren exampleWrap)
   \<and> isStreetLanternGroup exampleWrap (heap exampleWrap) 8
   \<and> position (heap exampleWrap 8) = Vector3 (- 126) 0 (- 133.5)
   \<and> position (heap (wrapWorld exampleWrap) 8) = Vector3 (- 126) 0 (- 133.5)"
proof -
  have fires: "wrapOffsetX exampleWrap \<noteq> 0 \<or> wrapOffsetZ exampleWrap \<noteq> 0"
    by (simp add: exampleWrap_offsets)
  have car: "position (heap (wrapWorld exampleWrap) 5) = Vector3 (- 129) 0 2"
    using wrapWorld_carModel [OF exampleWrap_distinct fires]
    by (simp add: exampleWrap_offsets exampleWrap_fields exampleWrap_positions
        translateVector_def Vector3_def)
  have sun: "heap (wrapWorld exampleWrap) 2 = heap exampleWrap 2"
    by (rule wrapWorld_skipped) (simp_all add: wrapSkips_def exampleWrap_fields)
  have lantern: "heap (wrapWorld exampleWrap) 8 = heap exampleWrap 8"
    by (rule wrapWorld_skipped) (simp_all add: wrapSkips_def exampleWrap_fields exampleWrap_lantern)
  show ?thesis
    by (simp add: car sun lantern exampleWrap_offsets exampleWrap_fields exampleWrap_positions
        exampleWrap_lantern)
qed

lemma wrapOffset_bound:
  assumes "\<bar>x\<bar> \<le> 3 * chunkSize / 2"
  shows "- (chunkSize / 2) \<le> x + wrapOffset x \<and> x + wrapOffset x \<le> chunkSize / 2"
  using assms by (auto simp: wrapOffset_def chunkSize_def citySize_def blockSize_def streetWidth_def)

text \<open>
  C4 (as amended): after \<^verbatim>\<open>wrapWorld\<close>, the coordinate of the active target on an axis lies
  within \<open>[-chunkSize/2, chunkSize/2]\<close> whenever it was at most one chunk length beyond
  that bound before (\<open>\<bar>coordinate\<bar> \<le> 3 * chunkSize / 2\<close>).
\<close>

theorem wrapWorld_recentres:
  assumes "distinctObjects s"
    and "cameraTarget s = character s \<or> cameraTarget s = carModel s"
  shows "(\<bar>vx (position (heap s (cameraTarget s)))\<bar> \<le> 3 * chunkSize / 2 \<longrightarrow>
            - (chunkSize / 2) \<le> vx (position (heap (wrapWorld s) (cameraTarget s)))
            \<and> vx (position (heap (wrapWorld s) (cameraTarget s))) \<le> chunkSize / 2)
         \<and> (\<bar>vz (position (heap s (cameraTarget s)))\<bar> \<le> 3 * chunkSize / 2 \<longrightarrow>
            - (chunkSize / 2) \<le> vz (position (heap (wrapWorld s) (cameraTarget s)))
            \<and> vz (position (heap (wrapWorld s) (cameraTarget s))) \<le> chunkSize / 2)"
proof -
  have pos: "position (heap (wrapWorld s) (cameraTarget s))
      = translateVector (wrapOffsetX s) (wrapOffsetZ s) (position (heap s (cameraTarget s)))"
  proof (cases "wrapOffsetX s \<noteq> 0 \<or> wrapOffsetZ s \<noteq> 0")
    case True
    show ?thesis
      using assms(2) wrapWorld_character [OF assms(1) True] wrapWorld_carModel [OF assms(1) True]
      by auto
  next
    case False
    then show ?thesis by (simp add: wrapWorld_idle translateVector_def)
  qed
  show ?thesis
    unfolding pos
    using wrapOffset_bound [of "vx (position (heap s (cameraTarget s)))"]
      wrapOffset_bound [of "vz (position (heap s (cameraTarget s)))"]
    by (simp add: translateVector_def wrapOffsetX_def wrapOffsetZ_def)
qed

theorem wrapWorld_recentres_witness:
  "distinctObjects exampleWrap
   \<and> cameraTarget exampleWrap = carModel exampleWrap
   \<and> \<bar>vx (position (heap exampleWrap (cameraTarget exampleWrap)))\<bar> \<le> 3 * chunkSize / 2
   \<and> \<bar>vz (position (heap exampleWrap (cameraTarget exampleWrap)))\<bar> \<le> 3 * chunkSize / 2
   \<and> vx (position (heap exampleWrap (cameraTarget exampleWrap))) = 131
   \<and> - (chunkSize / 2) \<le> vx (position (heap (wrapWorld exampleWrap) (cameraTarget exampleWrap)))
   \<and> vx (position (heap (wrapWorld exampleWrap) (cameraTarget exampleWrap))) \<le> chunkSize / 2
   \<and> - (chunkSize / 2) \<le> vz (position (heap (wrapWorld exampleWrap) (cameraTarget exampleWrap)))
   \<and> vz (position (heap (wrapWorld exampleWrap) (cameraTarget exampleWrap))) \<le> chunkSize / 2"
proof -
  have t: "cameraTarget exampleWrap = character exampleWrap
           \<or> cameraTarget exampleWrap = carModel exampleWrap"
    by (simp add: exampleWrap_fields)
  show ?thesis
    using wrapWorld_recentres [OF exampleWrap_distinct t]
    by (simp add: exampleWrap_distinct exampleWrap_fields exampleWrap_positions Vector3_def
        chunkSize_def citySize_def blockSize_def streetWidth_def)
qed


text \<open>
  C4 as stated fails: after a long frame has carried the car to \<open>x = 400\<close>, more than
  one chunk length past the bound, the wrap takes off one chunk length and leaves the
  car at \<open>x = 140\<close>, outside \<open>[-130, 130]\<close>.
\<close>

theorem wrapWorld_overshoot_counterexample:
  "wrapOffsetX exampleOvershoot = - chunkSize
   \<and> wrapOffsetX exampleOvershoot \<noteq> 0
   \<and> vx (position (heap exampleOvershoot (cameraTarget exampleOvershoot))) = 400
   \<and> vx (position (heap (wrapWorld exampleOvershoot) (cameraTarget exampleOvershoot))) = 140
   \<and> chunkSize / 2 = 130
   \<and> \<not> vx (position (heap (wrapWorld exampleOvershoot) (cameraTarget exampleOvershoot)))
         \<le> chunkSize / 2"
proof -
  have off: "wrapOffsetX exampleOvershoot = - 260" "wrapOffsetZ exampleOvershoot = 0"
    by (simp_all add: wrapOffsetX_def wrapOffsetZ_def wrapOffset_def exampleOvershoot_fields
      Vector3_def chunkSize_def citySize_def blockSize_def streetWidth_def)
  have fires: "wrapOffsetX exampleOvershoot \<noteq> 0 \<or> wrapOffsetZ exampleOvershoot \<noteq> 0"
    by (simp add: off)
  have d: "distinctObjects exampleOvershoot"
    by (simp add: distinctObjects_def exampleOvershoot_fields)
  show ?thesis
    using wrapWorld_carModel [OF d fires]
    by (simp add: off exampleOvershoot_fields translateVector_def Vector3_def chunkSize_def
        citySize_def blockSize_def streetWidth_def)
qed

section \<open>Day and night\<close>

lemma jsMod_nonneg:
  assumes "0 \<le> a" and "0 < b"
  shows "0 \<le> jsMod a b \<and> jsMod a b < b"
proof -
  have q: "0 \<le> a / b" using assms by simp
  have lo: "of_int \<lfloor>a / b\<rfloor> * b \<le> a" using assms(2) by (rule floor_divide_lower)
  have hi: "a < (of_int \<lfloor>a / b\<rfloor> + 1) * b" using assms(2) by (rule floor_divide_upper)
  show ?thesis using q lo hi by (simp add: jsMod_def algebra_simps)
qed

lemma jsMod_abs:
  assumes "0 < b"
  shows "\<bar>jsMod a b\<bar> < b"
proof (cases "0 \<le> a / b")
  case True
  then have "0 \<le> a" using assms by (simp add: zero_le_divide_iff)
  then show ?thesis using jsMod_nonneg [of a b] assms by simp
next
  case False
  have lo: "(of_int \<lceil>a / b\<rceil> - 1) * b < a" using assms by (rule ceiling_divide_lower)
  have hi: "a \<le> of_int \<lceil>a / b\<rceil> * b" using assms by (rule ceiling_divide_upper)
  show ?thesis using False lo hi by (simp add: jsMod_def algebra_simps)
qed

lemma lerpScalar_zero: "lerpScalar v w 0 = v"
  by (simp add: lerpScalar_def)

lemma lerpScalar_same: "lerpScalar v v t = v"
  by (simp add: lerpScalar_def algebra_simps)

lemma lerpColor_zero: "lerpColor c d 0 = c"
  by (simp add: lerpColor_def)

lemma lerpColor_same: "lerpColor c c t = c"
  by (simp add: lerpColor_def)

lemma interpolate_keyframe:
  assumes "k \<in> set keyframes" and "time k \<noteq> 1"
  shows "interpolate (time k) = k"
  using assms
  by (auto simp: keyframes_def interpolate_def boundingFrames_def Let_def lerpScalar_zero
      lerpColor_zero)

lemma interpolate_night:
  assumes "0.75 \<le> phase" and "phase < 1"
  shows "interpolate phase = (keyframes ! 0)\<lparr>time := phase\<rparr>"
  using assms
  by (simp add: keyframes_def interpolate_def boundingFrames_def Let_def lerpScalar_same
      lerpColor_same)

lemma interpolate_0: "interpolate 0 = keyframes ! 0"
  by (simp add: keyframes_def interpolate_def boundingFrames_def Let_def lerpScalar_zero
      lerpColor_zero)


lemma easeStreetLight_other: "r \<noteq> light \<Longrightarrow> easeStreetLight target dt light h r = h r"
  by (simp add: easeStreetLight_def)

lemma fold_easeStreetLight_notin:
  "r \<notin> set lights \<Longrightarrow> fold (easeStreetLight target dt) lights h r = h r"
  by (induction lights arbitrary: h) (simp_all add: easeStreetLight_other)

lemma currentTime_updateDayNightCycle:
  "currentTimeOfDaySeconds (updateDayNightCycle dt s)
     = jsMod (currentTimeOfDaySeconds s + dt) cycleDurationSeconds"
  by (simp add: updateDayNightCycle_def Let_def)

lemma lights_updateDayNightCycle:
  "sunMoonLight (updateDayNightCycle dt s) = sunMoonLight s"
  "ambientLight (updateDayNightCycle dt s) = ambientLight s"
  "streetLights (updateDayNightCycle dt s) = streetLights s"
  by (simp_all add: updateDayNightCycle_def Let_def)

lemma currentLighting_updateDayNightCycle:
  assumes "sunMoonLight s \<noteq> ambientLight s"
    and "sunMoonLight s \<notin> set (streetLights s)"
    and "ambientLight s \<notin> set (streetLights s)"
  shows "currentLighting (updateDayNightCycle dt s)
           = interpolate (jsMod (currentTimeOfDaySeconds s + dt) cycleDurationSeconds
                          / cycleDurationSeconds)"
  using assms
  by (simp add: currentLighting_def updateDayNightCycle_def Let_def fold_easeStreetLight_notin
      interpolate_def)

lemma background_updateDayNightCycle:
  "sceneBackground (updateDayNightCycle dt s)
     = map_option (\<lambda>background. fogColor (interpolate
          (jsMod (currentTimeOfDaySeconds s + dt) cycleDurationSeconds / cycleDurationSeconds)))
        (sceneBackground s)"
  by (simp add: updateDayNightCycle_def Let_def)

lemma time_interpolate: "time (interpolate phase) = phase"
  by (simp add: interpolate_def Let_def)

lemma phase_below_one:
  "jsMod a cycleDurationSeconds / cycleDurationSeconds < 1"
  using jsMod_abs [of cycleDurationSeconds a] by (simp add: cycleDurationSeconds_def)

lemma dayTicks_range:
  assumes "0 \<le> currentTimeOfDaySeconds s" and "currentTimeOfDaySeconds s < cycleDurationSeconds"
    and "\<forall>dt \<in> set deltaTimes. 0 \<le> dt"
  shows "0 \<le> currentTimeOfDaySeconds (dayTicks deltaTimes s)
         \<and> currentTimeOfDaySeconds (dayTicks deltaTimes s) < cycleDurationSeconds"
  using assms
proof (induction deltaTimes arbitrary: s)
  case Nil
  then show ?case by (simp add: dayTicks_def)
next
  case (Cons dt rest)
  have step: "0 \<le> currentTimeOfDaySeconds (updateDayNightCycle dt s)
              \<and> currentTimeOfDaySeconds (updateDayNightCycle dt s) < cycleDurationSeconds"
    unfolding currentTime_updateDayNightCycle
    using Cons.prems by (intro jsMod_nonneg) (simp_all add: cycleDurationSeconds_def)
  have "0 \<le> currentTimeOfDaySeconds (dayTicks rest (updateDayNightCycle dt s))
        \<and> currentTimeOfDaySeconds (dayTicks rest (updateDayNightCycle dt s)) < cycleDurationSeconds"
    using step Cons.prems(3) by (intro Cons.IH) simp_all
  then show ?case by (simp add: dayTicks_def)
qed

text \<open>
  C8: from an accumulator in \<open>[0, cycleDuration)\<close>, ticks with nonnegative frame
  times keep the accumulator in \<open>[0, cycleDuration)\<close>; when the phase after a tick
  equals the time of a keyframe, the sun intensity and colour, the ambient intensity and
  colour and the fog colour (and the background, while it is a colour) are the literal
  values of that keyframe; and from phase 0.75 up to the end of the cycle every output
  equals the output at phase 0, the last keyframe being the first one at time 1.  The
  lights are distinct objects, as \<^verbatim>\<open>init\<close> and \<^verbatim>\<open>createStreetLight\<close> create them.
\<close>

theorem dayNight_cycle:
  assumes "sunMoonLight s \<noteq> ambientLight s"
    and "sunMoonLight s \<notin> set (streetLights s)"
    and "ambientLight s \<notin> set (streetLights s)"
  shows "(0 \<le> currentTimeOfDaySeconds s \<and> currentTimeOfDaySeconds s < cycleDurationSeconds
            \<and> (\<forall>dt \<in> set deltaTimes. 0 \<le> dt) \<longrightarrow>
          0 \<le> currentTimeOfDaySeconds (dayTicks deltaTimes s)
          \<and> currentTimeOfDaySeconds (dayTicks deltaTimes s) < cycleDurationSeconds)
         \<and> (\<forall>k \<in> set keyframes.
               currentTimeOfDaySeconds (updateDayNightCycle dt s) / cycleDurationSeconds = time k \<longrightarrow>
               currentLighting (updateDayNightCycle dt s) = k
               \<and> sceneBackground (updateDayNightCycle dt s)
                  = map_option (\<lambda>background. fogColor k) (sceneBackground s))
         \<and> (0.75 \<le> currentTimeOfDaySeconds (updateDayNightCycle dt s) / cycleDurationSeconds \<longrightarrow>
               currentLighting (updateDayNightCycle dt s)
                 = (interpolate 0)
                     \<lparr>time := currentTimeOfDaySeconds (updateDayNightCycle dt s) / cycleDurationSeconds\<rparr>)
         \<and> interpolate 0 = keyframes ! 0
         \<and> last keyframes = (keyframes ! 0)\<lparr>time := 1\<rparr>"
proof -
  let ?phase = "jsMod (currentTimeOfDaySeconds s + dt) cycleDurationSeconds / cycleDurationSeconds"
  have light: "currentLighting (updateDayNightCycle dt s) = interpolate ?phase"
    using assms by (rule currentLighting_updateDayNightCycle)
  have below: "?phase < 1" by (rule phase_below_one)
  have key: "currentLighting (updateDayNightCycle dt s) = k
             \<and> sceneBackground (updateDayNightCycle dt s)
                = map_option (\<lambda>background. fogColor k) (sceneBackground s)"
    if "k \<in> set keyframes" and "?phase = time k" for k
  proof -
    have "time k \<noteq> 1" using that(2) below by simp
    then have "interpolate ?phase = k"
      unfolding that(2) using that(1) by (intro interpolate_keyframe)
    then show ?thesis by (simp add: light background_updateDayNightCycle)
  qed
  have night: "currentLighting (updateDayNightCycle dt s) = (interpolate 0)\<lparr>time := ?phase\<rparr>"
    if "0.75 \<le> ?phase"
    using that below by (simp add: light interpolate_night interpolate_0)
  have wrap: "last keyframes = (keyframes ! 0)\<lparr>time := 1\<rparr>"
    by (simp add: keyframes_def)
  show ?thesis
    using dayTicks_range [of s deltaTimes] key night wrap
    by (simp add: currentTime_updateDayNightCycle interpolate_0)
qed

theorem dayNight_cycle_witness:
  "sunMoonLight exampleWorld \<noteq> ambientLight exampleWorld
   \<and> sunMoonLight exampleWorld \<notin> set (streetLights exampleWorld)
   \<and> ambientLight exampleWorld \<notin> set (streetLights exampleWorld)
   \<and> 0 \<le> currentTimeOfDaySeconds exampleWorld
   \<and> currentTimeOfDaySeconds exampleWorld < cycleDurationSeconds
   \<and> (0::real) \<le> 100 \<and> (0::real) \<le> 50
   \<and> 0 \<le> currentTimeOfDaySeconds (dayTicks [100, 50] exampleWorld)
   \<and> currentTimeOfDaySeconds (dayTicks [100, 50] exampleWorld) < cycleDurationSeconds
   \<and> keyframes ! 4 \<in> set keyframes
   \<and> currentTimeOfDaySeconds (updateDayNightCycle 54 exampleWorld) / cycleDurationSeconds
      = time (keyframes ! 4)
   \<and> currentLighting (updateDayNightCycle 54 exampleWorld) = keyframes ! 4
   \<and> sceneBackground (updateDayNightCycle 54 exampleWorld) = None
   \<and> 0.75 \<le> currentTimeOfDaySeconds (updateDayNightCycle 66 exampleWorld) / cycleDurationSeconds
   \<and> currentLighting (updateDayNightCycle 66 exampleWorld) = (keyframes ! 0)\<lparr>time := 0.8\<rparr>"
proof -
  have lights: "sunMoonLight exampleWorld \<noteq> ambientLight exampleWorld"
    "sunMoonLight exampleWorld \<notin> set (streetLights exampleWorld)"
    "ambientLight exampleWorld \<notin> set (streetLights exampleWorld)"
    by (simp_all add: exampleWorld_lights)
  have now: "currentTimeOfDaySeconds (updateDayNightCycle 54 exampleWorld) = 84"
    "currentTimeOfDaySeconds (updateDayNightCycle 66 exampleWorld) = 96"
    by (simp_all add: currentTime_updateDayNightCycle exampleWorld_lights cycleDurationSeconds_def
        jsMod_examples)
  have k4: "keyframes ! 4 \<in> set keyframes" "time (keyframes ! 4) = 0.7"
    by (simp_all add: keyframes_def)
  have bg: "sceneBackground exampleWorld = None" by (simp add: exampleWorld_def)
  have range: "0 \<le> currentTimeOfDaySeconds (dayTicks [100, 50] exampleWorld)
      \<and> currentTimeOfDaySeconds (dayTicks [100, 50] exampleWorld) < cycleDurationSeconds"
    using dayNight_cycle [OF lights, of "[100, 50]" 54]
    by (simp add: exampleWorld_lights cycleDurationSeconds_def)
  have dusk: "currentLighting (updateDayNightCycle 54 exampleWorld) = keyframes ! 4
      \<and> sceneBackground (updateDayNightCycle 54 exampleWorld) = None"
    using dayNight_cycle [OF lights, of "[]" 54] k4
    by (simp add: now cycleDurationSeconds_def bg)
  have night: "currentLighting (updateDayNightCycle 66 exampleWorld) = (keyframes ! 0)\<lparr>time := 0.8\<rparr>"
    using dayNight_cycle [OF lights, of "[]" 66]
    by (simp add: now cycleDurationSeconds_def)
  show ?thesis
    using range dusk night
    by (simp add: exampleWorld_lights now k4 cycleDurationSeconds_def)
qed


end
